theory Spec2Isabelle
  imports Main "HOL-Library.Sublist"
begin

section \<open>Go strings as byte lists\<close>

text \<open>
  A Go string is a sequence of bytes; \<open>len\<close> counts bytes. It is modelled as
  \<^typ>\<open>string\<close>, whose characters are bytes. The functions of this section are the
  ones of the Go standard library that the resource file calls.
\<close>

definition byte :: "char \<Rightarrow> nat" where
  "byte c = of_char c"

definition isDigit :: "char \<Rightarrow> bool" where
  "isDigit c = (48 \<le> byte c \<and> byte c \<le> 57)"

definition isLower :: "char \<Rightarrow> bool" where
  "isLower c = (97 \<le> byte c \<and> byte c \<le> 122)"

definition isUpper :: "char \<Rightarrow> bool" where
  "isUpper c = (65 \<le> byte c \<and> byte c \<le> 90)"

definition isASCII :: "char \<Rightarrow> bool" where
  "isASCII c = (byte c < 128)"

definition lowerASCII :: "char \<Rightarrow> char" where
  "lowerASCII c = (if isUpper c then char_of (byte c + 32) else c)"

text \<open>
  \<open>strings.ToLower\<close>: a string of ASCII bytes only has its letters \<open>A-Z\<close> mapped to
  \<open>a-z\<close>; any other string goes through the Unicode case tables of the Go runtime
  (\<open>strings.Map(unicode.ToLower, s)\<close>), which are no part of the repository and are
  taken as the parameter \<open>unicodeLower\<close>.
\<close>

definition strings_ToLower :: "(string \<Rightarrow> string) \<Rightarrow> string \<Rightarrow> string" where
  "strings_ToLower unicodeLower s =
     (if list_all isASCII s then map lowerASCII s else unicodeLower s)"

text \<open>\<open>strings.HasPrefix\<close> and \<open>strings.HasSuffix\<close>.\<close>

definition HasPrefix :: "string \<Rightarrow> string \<Rightarrow> bool" where
  "HasPrefix s p = prefix p s"

definition HasSuffix :: "string \<Rightarrow> string \<Rightarrow> bool" where
  "HasSuffix s p = suffix p s"

text \<open>
  \<open>strings.Split(s, sep)\<close> for a separator of one byte: the pieces of \<open>s\<close> between
  the occurrences of the separator, one more than there are occurrences.
\<close>

fun strings_Split :: "string \<Rightarrow> char \<Rightarrow> string list" where
  "strings_Split [] sep = [[]]"
| "strings_Split (c # cs) sep =
     (if c = sep then [] # strings_Split cs sep
      else (case strings_Split cs sep of
              [] \<Rightarrow> [[c]]
            | seg # segs \<Rightarrow> (c # seg) # segs))"

text \<open>\<open>strings.Index(s, substr)\<close>: where \<open>substr\<close> first occurs, if it does.\<close>

fun strings_Index :: "string \<Rightarrow> string \<Rightarrow> nat option" where
  "strings_Index [] sub = (if sub = [] then Some 0 else None)"
| "strings_Index (c # cs) sub =
     (if prefix sub (c # cs) then Some 0 else map_option Suc (strings_Index cs sub))"

text \<open>\<open>strings.LastIndex(s, sep)\<close> for a separator of one byte.\<close>

definition LastIndexByte :: "string \<Rightarrow> char \<Rightarrow> nat option" where
  "LastIndexByte s c =
     (if c \<in> set s then Some (length s - 1 - length (takeWhile (\<lambda>x. x \<noteq> c) (rev s)))
      else None)"

text \<open>\<open>strings.Cut(s, sep)\<close> for a separator of one byte: before, after, found.\<close>

definition Cut :: "string \<Rightarrow> char \<Rightarrow> string \<times> string \<times> bool" where
  "Cut s sep =
     (if sep \<in> set s
      then (takeWhile (\<lambda>x. x \<noteq> sep) s, tl (dropWhile (\<lambda>x. x \<noteq> sep) s), True)
      else (s, [], False))"

text \<open>
  \<open>strings.Replace(s, old, new, 1)\<close>: the first occurrence of \<open>old\<close> in \<open>s\<close>
  replaced by \<open>new\<close>; \<open>s\<close> itself when \<open>old\<close> does not occur.
\<close>

fun strings_Replace1 :: "string \<Rightarrow> string \<Rightarrow> string \<Rightarrow> string" where
  "strings_Replace1 [] old new = (if old = [] then new else [])"
| "strings_Replace1 (c # cs) old new =
     (if prefix old (c # cs) then new @ drop (length old) (c # cs)
      else c # strings_Replace1 cs old new)"


section \<open>The URI parser (Go's net/url)\<close>

text \<open>
  \<open>url.Parse\<close> is the standard library's. The model follows its steps: the fragment
  is cut off, the scheme is read, the query is cut off, an authority after \<open>//\<close> is
  split into user information and host and both are validated, and the path is
  unescaped. Only the fields the resource reads (\<open>Host\<close>, \<open>Path\<close>) and the ones that
  decide them are kept.
\<close>

record URL =
  Scheme :: string
  Opaque :: string
  Host :: string
  Path :: string
  RawQuery :: string
  Fragment :: string

datatype encoding =
    encodePath | encodePathSegment | encodeHost | encodeZone
  | encodeUserPassword | encodeQueryComponent | encodeFragment

datatype url_error =
    InvalidControlCharacter
  | MissingProtocolScheme
  | FirstPathSegmentColon
  | InvalidUserinfo
  | MissingBracketInHost
  | InvalidPort string
  | EscapeError string
  | InvalidHostError string

definition emptyURL :: URL where
  "emptyURL = \<lparr>Scheme = [], Opaque = [], Host = [], Path = [], RawQuery = [], Fragment = []\<rparr>"

definition ishex :: "char \<Rightarrow> bool" where
  "ishex c = (isDigit c \<or> (97 \<le> byte c \<and> byte c \<le> 102) \<or> (65 \<le> byte c \<and> byte c \<le> 70))"

definition unhex :: "char \<Rightarrow> nat" where
  "unhex c =
     (if isDigit c then byte c - 48
      else if 97 \<le> byte c \<and> byte c \<le> 102 then byte c - 97 + 10
      else if 65 \<le> byte c \<and> byte c \<le> 70 then byte c - 65 + 10
      else 0)"

text \<open>\<open>shouldEscape(c, encodeHost)\<close>: the bytes a host may not hold unescaped.\<close>

definition shouldEscapeHost :: "char \<Rightarrow> bool" where
  "shouldEscapeHost c =
     (if isLower c \<or> isUpper c \<or> isDigit c then False
      else if c \<in> set (''!$&()*+,;=:[]<>'' @ [CHR 0x27, CHR 0x22]) then False
      else if c \<in> set ''-_.~'' then False
      else True)"

fun unescape :: "string \<Rightarrow> encoding \<Rightarrow> url_error + string" where
  "unescape [] mode = Inr []"
| "unescape (c # cs) mode =
     (if c = CHR ''%'' then
        (case cs of
           a # b # rest \<Rightarrow>
             if ishex a \<and> ishex b then
               (if mode = encodeHost \<and> unhex a < 8 \<and> [c, a, b] \<noteq> ''%25''
                then Inl (EscapeError [c, a, b])
                else if mode = encodeZone \<and> [c, a, b] \<noteq> ''%25''
                        \<and> unhex a * 16 + unhex b \<noteq> 32
                        \<and> shouldEscapeHost (char_of (unhex a * 16 + unhex b))
                then Inl (EscapeError [c, a, b])
                else (case unescape rest mode of
                        Inl e \<Rightarrow> Inl e
                      | Inr r \<Rightarrow> Inr (char_of (unhex a * 16 + unhex b) # r)))
             else Inl (EscapeError (take 3 (c # cs)))
         | _ \<Rightarrow> Inl (EscapeError (take 3 (c # cs))))
      else if c = CHR ''+'' then
        (case unescape cs mode of
           Inl e \<Rightarrow> Inl e
         | Inr r \<Rightarrow> Inr ((if mode = encodeQueryComponent then CHR '' '' else c) # r))
      else if (mode = encodeHost \<or> mode = encodeZone) \<and> isASCII c \<and> shouldEscapeHost c
        then Inl (InvalidHostError [c])
      else (case unescape cs mode of
              Inl e \<Rightarrow> Inl e
            | Inr r \<Rightarrow> Inr (c # r)))"

fun getScheme_from :: "nat \<Rightarrow> string \<Rightarrow> string \<Rightarrow> url_error + (string \<times> string)" where
  "getScheme_from i rawURL [] = Inr ([], rawURL)"
| "getScheme_from i rawURL (c # cs) =
     (if isLower c \<or> isUpper c then getScheme_from (Suc i) rawURL cs
      else if isDigit c \<or> c = CHR ''+'' \<or> c = CHR ''-'' \<or> c = CHR ''.'' then
        (if i = 0 then Inr ([], rawURL) else getScheme_from (Suc i) rawURL cs)
      else if c = CHR '':'' then
        (if i = 0 then Inl MissingProtocolScheme else Inr (take i rawURL, cs))
      else Inr ([], rawURL))"

definition getScheme :: "string \<Rightarrow> url_error + (string \<times> string)" where
  "getScheme rawURL = getScheme_from 0 rawURL rawURL"

definition validOptionalPort :: "string \<Rightarrow> bool" where
  "validOptionalPort port =
     (case port of
        [] \<Rightarrow> True
      | c # ds \<Rightarrow> c = CHR '':'' \<and> list_all isDigit ds)"

definition validUserinfo :: "string \<Rightarrow> bool" where
  "validUserinfo s =
     list_all (\<lambda>r. isUpper r \<or> isLower r \<or> isDigit r
                    \<or> r \<in> set (''-._:~!$&()*+,;=%@'' @ [CHR 0x27])) s"

definition parseHost :: "string \<Rightarrow> url_error + string" where
  "parseHost host =
     (if HasPrefix host ''['' then
        (case LastIndexByte host CHR '']'' of
           None \<Rightarrow> Inl MissingBracketInHost
         | Some i \<Rightarrow>
             if validOptionalPort (drop (i + 1) host) then
               (case strings_Index (take i host) ''%25'' of
                  None \<Rightarrow> unescape host encodeHost
                | Some zone \<Rightarrow>
                    (case unescape (take zone host) encodeHost of
                       Inl e \<Rightarrow> Inl e
                     | Inr host1 \<Rightarrow>
                         (case unescape (drop zone (take i host)) encodeZone of
                            Inl e \<Rightarrow> Inl e
                          | Inr host2 \<Rightarrow>
                              (case unescape (drop i host) encodeHost of
                                 Inl e \<Rightarrow> Inl e
                               | Inr host3 \<Rightarrow> Inr (host1 @ host2 @ host3)))))
             else Inl (InvalidPort (drop (i + 1) host)))
      else
        (case LastIndexByte host CHR '':'' of
           None \<Rightarrow> unescape host encodeHost
         | Some i \<Rightarrow>
             if validOptionalPort (drop i host) then unescape host encodeHost
             else Inl (InvalidPort (drop i host))))"

text \<open>
  \<open>parseAuthority\<close>: the user information is validated and unescaped as the library
  does, and then dropped, since the resource reads the host only.
\<close>

definition parseAuthority :: "string \<Rightarrow> url_error + string" where
  "parseAuthority authority =
     (case LastIndexByte authority CHR ''@'' of
        None \<Rightarrow> parseHost authority
      | Some i \<Rightarrow>
          (case parseHost (drop (i + 1) authority) of
             Inl e \<Rightarrow> Inl e
           | Inr host \<Rightarrow>
               if validUserinfo (take i authority) then
                 (if CHR '':'' \<in> set (take i authority) then
                    (case Cut (take i authority) CHR '':'' of
                       (username, password, found) \<Rightarrow>
                         (case unescape username encodeUserPassword of
                            Inl e \<Rightarrow> Inl e
                          | Inr u \<Rightarrow>
                              (case unescape password encodeUserPassword of
                                 Inl e \<Rightarrow> Inl e
                               | Inr p \<Rightarrow> Inr host)))
                  else
                    (case unescape (take i authority) encodeUserPassword of
                       Inl e \<Rightarrow> Inl e
                     | Inr u \<Rightarrow> Inr host))
               else Inl InvalidUserinfo))"

definition stringContainsCTLByte :: "string \<Rightarrow> bool" where
  "stringContainsCTLByte s = list_ex (\<lambda>c. byte c < 32 \<or> byte c = 127) s"

text \<open>The path of a URL: \<open>setPath\<close> stores the unescaped form.\<close>

definition setPath :: "URL \<Rightarrow> string \<Rightarrow> url_error + URL" where
  "setPath u p =
     (case unescape p encodePath of
        Inl e \<Rightarrow> Inl e
      | Inr path \<Rightarrow> Inr (u\<lparr>Path := path\<rparr>))"

definition url_parse :: "string \<Rightarrow> url_error + URL" where
  "url_parse rawURL =
     (if stringContainsCTLByte rawURL then Inl InvalidControlCharacter
      else if rawURL = ''*'' then Inr (emptyURL\<lparr>Path := ''*''\<rparr>)
      else
        (case getScheme rawURL of
           Inl e \<Rightarrow> Inl e
         | Inr (scheme0, rest0) \<Rightarrow>
             (let scheme = map lowerASCII scheme0;
                  forceQuery = (HasSuffix rest0 ''?'' \<and> count_list rest0 CHR ''?'' = 1);
                  rest = (if forceQuery then butlast rest0 else fst (Cut rest0 CHR ''?''));
                  query = (if forceQuery then [] else fst (snd (Cut rest0 CHR ''?'')));
                  url = emptyURL\<lparr>Scheme := scheme, RawQuery := query\<rparr>
              in
                if \<not> HasPrefix rest ''/'' \<and> scheme \<noteq> [] then Inr (url\<lparr>Opaque := rest\<rparr>)
                else if \<not> HasPrefix rest ''/'' \<and> CHR '':'' \<in> set (fst (Cut rest CHR ''/''))
                  then Inl FirstPathSegmentColon
                else if (scheme \<noteq> [] \<or> \<not> HasPrefix rest ''///'') \<and> HasPrefix rest ''//''
                  then
                    (case parseAuthority (takeWhile (\<lambda>x. x \<noteq> CHR ''/'') (drop 2 rest)) of
                       Inl e \<Rightarrow> Inl e
                     | Inr host \<Rightarrow>
                         setPath (url\<lparr>Host := host\<rparr>)
                           (dropWhile (\<lambda>x. x \<noteq> CHR ''/'') (drop 2 rest)))
                else setPath url rest)))"

text \<open>\<open>url.Parse\<close>: the fragment after the first \<open>#\<close> is cut off and unescaped.\<close>

definition url_Parse :: "string \<Rightarrow> url_error + URL" where
  "url_Parse rawURL =
     (case url_parse (fst (Cut rawURL CHR ''#'')) of
        Inl e \<Rightarrow> Inl e
      | Inr url \<Rightarrow>
          if fst (snd (Cut rawURL CHR ''#'')) = [] then Inr url
          else
            (case unescape (fst (snd (Cut rawURL CHR ''#''))) encodeFragment of
               Inl e \<Rightarrow> Inl e
             | Inr f \<Rightarrow> Inr (url\<lparr>Fragment := f\<rparr>)))"


section \<open>Validation of the declared fields\<close>

text \<open>
  The two regular expressions of \<open>validateArmStorageContainerName\<close>. Go's \<open>$\<close>
  matches at the end of the text only, and the classes hold ASCII bytes only, so
  \<open>^\$root$|^[0-9a-z-]+$\<close> matches the text \<open>$root\<close> and the non-empty texts of digits,
  lower-case letters and hyphens; \<open>^-\<close> matches the texts that start with a hyphen.
\<close>

definition matchContainerName :: "string \<Rightarrow> bool" where
  "matchContainerName v =
     (v = ''$root'' \<or> (v \<noteq> [] \<and> list_all (\<lambda>c. isDigit c \<or> isLower c \<or> c = CHR ''-'') v))"

definition matchLeadingHyphen :: "string \<Rightarrow> bool" where
  "matchLeadingHyphen v = HasPrefix v ''-''"

text \<open>
  The errors of the two validators, one constructor per message; the arguments are the
  values the message formats (the field's key and the value).
\<close>

datatype validation_error =
    OnlyLowercaseAlphanumericAndHyphens string string
  | MustBeBetween3And63Characters string string
  | CannotBeginWithHyphen string string
  | AccessTypeInvalid string

definition validateArmStorageContainerName ::
  "string \<Rightarrow> string \<Rightarrow> string list \<times> validation_error list" where
  "validateArmStorageContainerName v k =
     (let errors0 = [];
          errors1 = (if \<not> matchContainerName v
                     then errors0 @ [OnlyLowercaseAlphanumericAndHyphens k v] else errors0);
          errors2 = (if length v < 3 \<or> length v > 63
                     then errors1 @ [MustBeBetween3And63Characters k v] else errors1);
          errors3 = (if matchLeadingHyphen v
                     then errors2 @ [CannotBeginWithHyphen k v] else errors2)
      in ([], errors3))"

definition validTypes :: "string list" where
  "validTypes = [''private'', ''blob'', ''container'']"

definition validateArmStorageContainerAccessType ::
  "(string \<Rightarrow> string) \<Rightarrow> string \<Rightarrow> string \<Rightarrow> string list \<times> validation_error list" where
  "validateArmStorageContainerAccessType unicodeLower v k =
     (let lowered = strings_ToLower unicodeLower v
      in if lowered \<in> set validTypes then ([], []) else ([], [AccessTypeInvalid lowered]))"


section \<open>The remote API and the state of one call\<close>

text \<open>
  Modelled from the spec: the two kinds of failure of a remote call (section 7), a
  retryable and a non-retryable one. In Go the value is the opaque \<open>error\<close> of the
  storage library, which is no part of the repository; the resource file never
  inspects its kind.
\<close>

datatype remote_error = TransientError string | FatalError string

record ContainerProperties =
  LastModified :: string
  LeaseStatus :: string
  LeaseState :: string
  LeaseDuration :: string

record Container =
  Name :: string
  Properties :: ContainerProperties

text \<open>
  Every call to the remote API is recorded, in order. The client of a storage account
  is identified by the account's name, a container reference by client and name.
\<close>

datatype call =
    Call_getBlobStorageClientForStorageAccount string string
  | Call_determineResourceGroupForStorageAccount string
  | Call_CreateIfNotExists string string
  | Call_SetPermissions string string string
  | Call_ListContainers string string
  | Call_Exists string string
  | Call_DeleteIfExists string string

type_synonym BlobStorageClient = string

record ContainerReference =
  refClient :: BlobStorageClient
  refName :: string

record Environment =
  StorageEndpointSuffix :: string

text \<open>
  \<open>ArmClient\<close> (the \<open>meta\<close> argument): the environment, and the remote side as the
  resource sees it. The remote API is no part of the repository; each of its
  operations is a parameter that gives the operation's answer from the calls made so
  far and the arguments, so that a repeated call may be answered differently.
  \<open>retriesWithin t\<close> is the number of further attempts the retry helper has time for
  within a timeout of \<open>t\<close> seconds.
\<close>

record ArmClient =
  environment :: Environment
  retriesWithin :: "nat \<Rightarrow> nat"
  storageAccountResponse :: "call list \<Rightarrow> string \<Rightarrow> string \<Rightarrow> remote_error + bool"
  resourceGroupResponse :: "call list \<Rightarrow> string \<Rightarrow> remote_error + string option"
  createResponse :: "call list \<Rightarrow> string \<Rightarrow> string \<Rightarrow> remote_error + bool"
  setPermissionsResponse :: "call list \<Rightarrow> string \<Rightarrow> string \<Rightarrow> string \<Rightarrow> remote_error option"
  listResponse :: "call list \<Rightarrow> string \<Rightarrow> string \<Rightarrow> remote_error + Container list"
  existsResponse :: "call list \<Rightarrow> string \<Rightarrow> string \<Rightarrow> remote_error + bool"
  deleteResponse :: "call list \<Rightarrow> string \<Rightarrow> string \<Rightarrow> remote_error + bool"

text \<open>
  \<open>schema.ResourceData\<close>: the persisted identity (\<open>d.Id()\<close>, \<open>d.SetId\<close>), the declared
  fields (\<open>d.Get\<close>) and the computed \<open>properties\<close> map (\<open>d.Set\<close>). Storing the map
  does not fail: the field is declared as a map, and the read function stores a map of
  four entries.
\<close>

record ResourceData =
  dId :: string
  name :: string
  resource_group_name :: string
  storage_account_name :: string
  container_access_type :: string
  properties :: "(string \<times> string) list"

record state =
  resourceData :: ResourceData
  calls :: "call list"

definition SetId :: "string \<Rightarrow> state \<Rightarrow> state" where
  "SetId v s = s\<lparr>resourceData := (resourceData s)\<lparr>dId := v\<rparr>\<rparr>"

definition Set_properties :: "(string \<times> string) list \<Rightarrow> state \<Rightarrow> state" where
  "Set_properties output s = s\<lparr>resourceData := (resourceData s)\<lparr>properties := output\<rparr>\<rparr>"

definition record_call :: "call \<Rightarrow> state \<Rightarrow> state" where
  "record_call c s = s\<lparr>calls := calls s @ [c]\<rparr>"

definition getBlobStorageClientForStorageAccount ::
  "ArmClient \<Rightarrow> string \<Rightarrow> string \<Rightarrow> state \<Rightarrow> (remote_error + BlobStorageClient \<times> bool) \<times> state" where
  "getBlobStorageClientForStorageAccount armClient resourceGroup account s =
     ((case storageAccountResponse armClient (calls s) resourceGroup account of
         Inl err \<Rightarrow> Inl err
       | Inr accountExists \<Rightarrow> Inr (account, accountExists)),
      record_call (Call_getBlobStorageClientForStorageAccount resourceGroup account) s)"

definition determineResourceGroupForStorageAccount ::
  "string \<Rightarrow> ArmClient \<Rightarrow> state \<Rightarrow> (remote_error + string option) \<times> state" where
  "determineResourceGroupForStorageAccount account armClient s =
     (resourceGroupResponse armClient (calls s) account,
      record_call (Call_determineResourceGroupForStorageAccount account) s)"

definition GetContainerReference :: "BlobStorageClient \<Rightarrow> string \<Rightarrow> ContainerReference" where
  "GetContainerReference blobClient nm = \<lparr>refClient = blobClient, refName = nm\<rparr>"

definition CreateIfNotExists ::
  "ArmClient \<Rightarrow> ContainerReference \<Rightarrow> state \<Rightarrow> (remote_error + bool) \<times> state" where
  "CreateIfNotExists armClient reference s =
     (createResponse armClient (calls s) (refClient reference) (refName reference),
      record_call (Call_CreateIfNotExists (refClient reference) (refName reference)) s)"

definition SetPermissions ::
  "ArmClient \<Rightarrow> ContainerReference \<Rightarrow> string \<Rightarrow> state \<Rightarrow> remote_error option \<times> state" where
  "SetPermissions armClient reference accessType s =
     (setPermissionsResponse armClient (calls s) (refClient reference) (refName reference) accessType,
      record_call (Call_SetPermissions (refClient reference) (refName reference) accessType) s)"

definition ListContainers ::
  "ArmClient \<Rightarrow> BlobStorageClient \<Rightarrow> string \<Rightarrow> state \<Rightarrow> (remote_error + Container list) \<times> state" where
  "ListContainers armClient blobClient pfx s =
     (listResponse armClient (calls s) blobClient pfx,
      record_call (Call_ListContainers blobClient pfx) s)"

definition Exists ::
  "ArmClient \<Rightarrow> ContainerReference \<Rightarrow> state \<Rightarrow> (remote_error + bool) \<times> state" where
  "Exists armClient reference s =
     (existsResponse armClient (calls s) (refClient reference) (refName reference),
      record_call (Call_Exists (refClient reference) (refName reference)) s)"

definition DeleteIfExists ::
  "ArmClient \<Rightarrow> ContainerReference \<Rightarrow> state \<Rightarrow> (remote_error + bool) \<times> state" where
  "DeleteIfExists armClient reference s =
     (deleteResponse armClient (calls s) (refClient reference) (refName reference),
      record_call (Call_DeleteIfExists (refClient reference) (refName reference)) s)"


section \<open>The retry helper\<close>

record RetryError =
  Err :: remote_error
  Retryable :: bool

definition RetryableError :: "remote_error \<Rightarrow> RetryError" where
  "RetryableError err = \<lparr>Err = err, Retryable = True\<rparr>"

datatype retry_error = TimeoutExceeded remote_error | NonRetryable remote_error

text \<open>
  Modelled from the spec: \<open>resource.Retry\<close>, the retry scheduler of section 4.6, whose
  code is the host tool's and not in the repository. The operation is attempted at
  least once; a result marked retryable leads to another attempt while the timeout
  allows one (\<open>n\<close> counts the attempts that are left), and to \<open>TimeoutExceeded\<close> with
  the last error otherwise; a result that is not marked retryable ends the loop at
  once.
\<close>

fun Retry :: "nat \<Rightarrow> ('s \<Rightarrow> RetryError option \<times> 's) \<Rightarrow> 's \<Rightarrow> retry_error option \<times> 's" where
  "Retry 0 f s =
     (case f s of
        (None, s') \<Rightarrow> (None, s')
      | (Some rerr, s') \<Rightarrow>
          if Retryable rerr then (Some (TimeoutExceeded (Err rerr)), s')
          else (Some (NonRetryable (Err rerr)), s'))"
| "Retry (Suc n) f s =
     (case f s of
        (None, s') \<Rightarrow> (None, s')
      | (Some rerr, s') \<Rightarrow>
          if Retryable rerr then Retry n f s'
          else (Some (NonRetryable (Err rerr)), s'))"


section \<open>The resource: identity, create, read, exists, delete\<close>

datatype error =
    RemoteError remote_error
  | StorageAccountNotFound string
  | ErrorCreatingContainer string string retry_error
  | ErrorSettingPermissions string string remote_error
  | ErrorParsingAsURI string url_error
  | ExpectedNumberOfSegments nat
  | FailedToRetrieveStorageContainers string remote_error
  | ErrorQueryingExistence string string remote_error
  | ErrorDeletingStorageContainer string string remote_error

record storageContainerId =
  storageAccountName :: string
  containerName :: string

definition parseStorageContainerID :: "string \<Rightarrow> Environment \<Rightarrow> error + storageContainerId" where
  "parseStorageContainerID input env =
     (case url_Parse input of
        Inl err \<Rightarrow> Inl (ErrorParsingAsURI input err)
      | Inr uri \<Rightarrow>
          (let segments = strings_Split (Path uri) CHR ''/'' in
           case segments of
             [] \<Rightarrow> Inl (ExpectedNumberOfSegments (length segments))
           | segment0 # others \<Rightarrow>
               Inr \<lparr>storageAccountName =
                      strings_Replace1 (Host uri) (''.'' @ StorageEndpointSuffix env) [],
                    containerName = segment0\<rparr>))"

definition checkContainerIsCreated ::
  "ArmClient \<Rightarrow> ContainerReference \<Rightarrow> state \<Rightarrow> RetryError option \<times> state" where
  "checkContainerIsCreated armClient reference s =
     (case CreateIfNotExists armClient reference s of
        (Inl err, s') \<Rightarrow> (Some (RetryableError err), s')
      | (Inr created, s') \<Rightarrow> (None, s'))"

definition resourceArmStorageContainerRead :: "ArmClient \<Rightarrow> state \<Rightarrow> error option \<times> state" where
  "resourceArmStorageContainerRead armClient s =
     (case parseStorageContainerID (dId (resourceData s)) (environment armClient) of
        Inl err \<Rightarrow> (Some err, s)
      | Inr ident \<Rightarrow>
          (case determineResourceGroupForStorageAccount (storageAccountName ident) armClient s of
             (Inl err, s1) \<Rightarrow> (Some (RemoteError err), s1)
           | (Inr None, s1) \<Rightarrow> (None, SetId [] s1)
           | (Inr (Some resourceGroup), s1) \<Rightarrow>
               (case getBlobStorageClientForStorageAccount armClient resourceGroup
                       (storageAccountName ident) s1 of
                  (Inl err, s2) \<Rightarrow> (Some (RemoteError err), s2)
                | (Inr (blobClient, accountExists), s2) \<Rightarrow>
                    if \<not> accountExists then (None, SetId [] s2)
                    else
                      (case ListContainers armClient blobClient (containerName ident) s2 of
                         (Inl err, s3) \<Rightarrow>
                           (Some (FailedToRetrieveStorageContainers (containerName ident) err), s3)
                       | (Inr containers, s3) \<Rightarrow>
                           (case find (\<lambda>cont. Name cont = containerName ident) containers of
                              None \<Rightarrow> (None, SetId [] s3)
                            | Some container \<Rightarrow>
                                (None,
                                 Set_properties
                                   [(''last_modified'', LastModified (Properties container)),
                                    (''lease_status'', LeaseStatus (Properties container)),
                                    (''lease_state'', LeaseState (Properties container)),
                                    (''lease_duration'', LeaseDuration (Properties container))]
                                   s3))))))"

text \<open>Lines 108 to 113 of the create function: the access type sent to the remote API.\<close>

definition accessTypeOf :: "string \<Rightarrow> string" where
  "accessTypeOf container_access_type_value =
     (if container_access_type_value = ''private'' then []
      else container_access_type_value)"

definition resourceArmStorageContainerCreate :: "ArmClient \<Rightarrow> state \<Rightarrow> error option \<times> state" where
  "resourceArmStorageContainerCreate armClient s =
     (let resourceGroupName = resource_group_name (resourceData s);
          storageAccountNm = storage_account_name (resourceData s)
      in
        case getBlobStorageClientForStorageAccount armClient resourceGroupName storageAccountNm s of
          (Inl err, s1) \<Rightarrow> (Some (RemoteError err), s1)
        | (Inr (blobClient, accountExists), s1) \<Rightarrow>
            if \<not> accountExists then (Some (StorageAccountNotFound storageAccountNm), s1)
            else
              (let nm = name (resourceData s1);
                   accessType = accessTypeOf (container_access_type (resourceData s1));
                   reference = GetContainerReference blobClient nm
               in
                 case Retry (retriesWithin armClient 120)
                        (checkContainerIsCreated armClient reference) s1 of
                   (Some err, s2) \<Rightarrow> (Some (ErrorCreatingContainer nm storageAccountNm err), s2)
                 | (None, s2) \<Rightarrow>
                     (case SetPermissions armClient reference accessType s2 of
                        (Some err, s3) \<Rightarrow>
                          (Some (ErrorSettingPermissions nm storageAccountNm err), s3)
                      | (None, s3) \<Rightarrow>
                          resourceArmStorageContainerRead armClient
                            (SetId (''https://'' @ storageAccountNm @ ''.''
                                      @ StorageEndpointSuffix (environment armClient)
                                      @ ''/'' @ nm) s3))))"

definition resourceArmStorageContainerExists :: "ArmClient \<Rightarrow> state \<Rightarrow> (error + bool) \<times> state" where
  "resourceArmStorageContainerExists armClient s =
     (case parseStorageContainerID (dId (resourceData s)) (environment armClient) of
        Inl err \<Rightarrow> (Inl err, s)
      | Inr ident \<Rightarrow>
          (case determineResourceGroupForStorageAccount (storageAccountName ident) armClient s of
             (Inl err, s1) \<Rightarrow> (Inl (RemoteError err), s1)
           | (Inr None, s1) \<Rightarrow> (Inr False, s1)
           | (Inr (Some resourceGroup), s1) \<Rightarrow>
               (case getBlobStorageClientForStorageAccount armClient resourceGroup
                       (storageAccountName ident) s1 of
                  (Inl err, s2) \<Rightarrow> (Inl (RemoteError err), s2)
                | (Inr (blobClient, accountExists), s2) \<Rightarrow>
                    if \<not> accountExists then (Inr False, SetId [] s2)
                    else
                      (case Exists armClient (GetContainerReference blobClient (containerName ident)) s2 of
                         (Inl err, s3) \<Rightarrow>
                           (Inl (ErrorQueryingExistence (containerName ident) (storageAccountName ident) err),
                            s3)
                       | (Inr exists, s3) \<Rightarrow> (Inr exists, s3)))))"

definition resourceArmStorageContainerDelete :: "ArmClient \<Rightarrow> state \<Rightarrow> error option \<times> state" where
  "resourceArmStorageContainerDelete armClient s =
     (case parseStorageContainerID (dId (resourceData s)) (environment armClient) of
        Inl err \<Rightarrow> (Some err, s)
      | Inr ident \<Rightarrow>
          (case determineResourceGroupForStorageAccount (storageAccountName ident) armClient s of
             (Inl err, s1) \<Rightarrow> (Some (RemoteError err), s1)
           | (Inr None, s1) \<Rightarrow> (None, s1)
           | (Inr (Some resourceGroup), s1) \<Rightarrow>
               (case getBlobStorageClientForStorageAccount armClient resourceGroup
                       (storageAccountName ident) s1 of
                  (Inl err, s2) \<Rightarrow> (Some (RemoteError err), s2)
                | (Inr (blobClient, accountExists), s2) \<Rightarrow>
                    if \<not> accountExists then (None, s2)
                    else
                      (case DeleteIfExists armClient
                              (GetContainerReference blobClient (containerName ident)) s2 of
                         (Inl err, s3) \<Rightarrow>
                           (Some (ErrorDeletingStorageContainer (containerName ident)
                                    (storageAccountName ident) err), s3)
                       | (Inr deleted, s3) \<Rightarrow> (None, s3)))))"


section \<open>The rules of the specification, and concrete remote sides\<close>

text \<open>
  The three naming rules in the words of the specification: the characters allowed,
  the length, and the first character.
\<close>

definition rule_charset :: "string \<Rightarrow> bool" where
  "rule_charset v =
     (v = ''$root'' \<or>
      (v \<noteq> [] \<and> list_all (\<lambda>c. c \<in> set ''0123456789abcdefghijklmnopqrstuvwxyz-'') v))"

definition rule_length :: "string \<Rightarrow> bool" where
  "rule_length v = (3 \<le> length v \<and> length v \<le> 63)"

definition rule_no_leading_hyphen :: "string \<Rightarrow> bool" where
  "rule_no_leading_hyphen v = (case v of [] \<Rightarrow> True | c # cs \<Rightarrow> c \<noteq> CHR ''-'')"

definition violations :: "string \<Rightarrow> nat" where
  "violations v =
     (if rule_charset v then 0 else 1) + (if rule_length v then 0 else 1)
       + (if rule_no_leading_hyphen v then 0 else 1)"

text \<open>
  The names that make up an identity: a storage account name is made of lower-case
  letters and digits, an endpoint suffix is a DNS name, and a container name that
  passes the validator is made of lower-case letters, digits and hyphens, or is
  \<open>$root\<close>.
\<close>

definition accountChar :: "char \<Rightarrow> bool" where
  "accountChar c = (isLower c \<or> isDigit c)"

definition hostChar :: "char \<Rightarrow> bool" where
  "hostChar c = (isLower c \<or> isDigit c \<or> c = CHR ''-'' \<or> c = CHR ''.'')"

definition containerChar :: "char \<Rightarrow> bool" where
  "containerChar c = (isLower c \<or> isDigit c \<or> c = CHR ''-'' \<or> c = CHR ''$'')"

text \<open>
  Two strings are the same up to case when lower-casing makes them equal.
\<close>

definition sameUpToCase :: "(string \<Rightarrow> string) \<Rightarrow> string \<Rightarrow> string \<Rightarrow> bool" where
  "sameUpToCase unicodeLower s t = (strings_ToLower unicodeLower s = strings_ToLower unicodeLower t)"

text \<open>
  A remote side on which everything is there: the account \<open>acct\<close> in the resource
  group \<open>rg1\<close>, holding the containers \<open>data\<close> and \<open>data-archive\<close>.
\<close>

definition someProperties :: ContainerProperties where
  "someProperties =
     \<lparr>LastModified = ''Mon, 01 Jan 2018 00:00:00 GMT'', LeaseStatus = ''unlocked'',
      LeaseState = ''available'', LeaseDuration = []\<rparr>"

definition publicCloud :: Environment where
  "publicCloud = \<lparr>StorageEndpointSuffix = ''core.windows.net''\<rparr>"

definition remoteHealthy :: ArmClient where
  "remoteHealthy =
     \<lparr>environment = publicCloud,
      retriesWithin = (\<lambda>t. 3),
      storageAccountResponse = (\<lambda>h g a. Inr True),
      resourceGroupResponse = (\<lambda>h a. Inr (Some ''rg1'')),
      createResponse = (\<lambda>h a n. Inr True),
      setPermissionsResponse = (\<lambda>h a n t. None),
      listResponse = (\<lambda>h a p.
         Inr [\<lparr>Name = ''data-archive'', Properties = someProperties\<rparr>,
              \<lparr>Name = ''data'', Properties = someProperties\<rparr>]),
      existsResponse = (\<lambda>h a n. Inr True),
      deleteResponse = (\<lambda>h a n. Inr True)\<rparr>"

text \<open>The resource group of the account cannot be found.\<close>

definition remoteNoResourceGroup :: ArmClient where
  "remoteNoResourceGroup = remoteHealthy\<lparr>resourceGroupResponse := (\<lambda>h a. Inr None)\<rparr>"

text \<open>The storage account is reported absent.\<close>

definition remoteNoAccount :: ArmClient where
  "remoteNoAccount = remoteHealthy\<lparr>storageAccountResponse := (\<lambda>h g a. Inr False)\<rparr>"

text \<open>The account holds the container \<open>data-archive\<close> only.\<close>

definition remoteNoContainer :: ArmClient where
  "remoteNoContainer =
     remoteHealthy
       \<lparr>listResponse := (\<lambda>h a p. Inr [\<lparr>Name = ''data-archive'', Properties = someProperties\<rparr>]),
        existsResponse := (\<lambda>h a n. Inr False),
        deleteResponse := (\<lambda>h a n. Inr False)\<rparr>"

text \<open>Creation fails with a retryable error, every time.\<close>

definition remoteAlwaysTransient :: ArmClient where
  "remoteAlwaysTransient =
     remoteHealthy\<lparr>createResponse := (\<lambda>h a n. Inl (TransientError ''container is being deleted''))\<rparr>"

text \<open>
  Creation fails with a non-retryable error at the first attempt, and succeeds at any
  later one.
\<close>

definition remoteFatalOnce :: ArmClient where
  "remoteFatalOnce =
     remoteHealthy
       \<lparr>createResponse := (\<lambda>h a n.
          if list_ex (\<lambda>c. c = Call_CreateIfNotExists a n) h then Inr True
          else Inl (FatalError ''403 authentication failed''))\<rparr>"

text \<open>
  A resource that is not created yet, as declared by the user, and one that is
  tracked under the identity that the create function gives it.
\<close>

definition declared :: "string \<Rightarrow> state" where
  "declared accessType =
     \<lparr>resourceData =
        \<lparr>dId = [], name = ''data'', resource_group_name = ''rg1'',
         storage_account_name = ''acct'', container_access_type = accessType,
         properties = []\<rparr>,
      calls = []\<rparr>"

definition tracked :: "string \<Rightarrow> state" where
  "tracked ident =
     \<lparr>resourceData =
        \<lparr>dId = ident, name = ''data'', resource_group_name = ''rg1'',
         storage_account_name = ''acct'', container_access_type = ''private'',
         properties = []\<rparr>,
      calls = []\<rparr>"


section \<open>Facts about the string functions and the retry loop\<close>

lemma strings_Split_nonempty: "strings_Split s sep \<noteq> []"
  by (induction s) (auto split: list.splits)

lemma find_name_None: "(find P xs = None) = (\<not> list_ex P xs)"
  by (induction xs) auto

lemma find_name_Some: "find P xs = Some x \<Longrightarrow> list_ex P xs"
  by (induction xs) (auto split: if_splits)

lemma name_char_alphabet:
  "\<forall>c. (isDigit c \<or> isLower c \<or> c = CHR ''-'')
         = (c \<in> set ''0123456789abcdefghijklmnopqrstuvwxyz-'')"
  by code_simp

lemma matchContainerName_rule: "matchContainerName v = rule_charset v"
proof -
  have "list_all (\<lambda>c. isDigit c \<or> isLower c \<or> c = CHR ''-'') v
        = list_all (\<lambda>c. c \<in> set ''0123456789abcdefghijklmnopqrstuvwxyz-'') v"
    using name_char_alphabet by (induction v) simp_all
  then show ?thesis
    unfolding matchContainerName_def rule_charset_def by simp
qed

lemma matchLeadingHyphen_rule: "matchLeadingHyphen v = (\<not> rule_no_leading_hyphen v)"
  by (cases v) (auto simp: matchLeadingHyphen_def HasPrefix_def rule_no_leading_hyphen_def)

lemma length_rule: "(length v < 3 \<or> length v > 63) = (\<not> rule_length v)"
  by (auto simp: rule_length_def)

lemma ToLower_validTypes:
  "strings_ToLower U ''private'' = ''private''"
  "strings_ToLower U ''blob'' = ''blob''"
  "strings_ToLower U ''container'' = ''container''"
  by (simp_all add: strings_ToLower_def isASCII_def lowerASCII_def isUpper_def byte_def)

lemma checkContainerIsCreated_step:
  "checkContainerIsCreated c ref s =
     ((case createResponse c (calls s) (refClient ref) (refName ref) of
         Inl err \<Rightarrow> Some \<lparr>Err = err, Retryable = True\<rparr>
       | Inr created \<Rightarrow> None),
      record_call (Call_CreateIfNotExists (refClient ref) (refName ref)) s)"
  by (simp add: checkContainerIsCreated_def CreateIfNotExists_def RetryableError_def
      split: sum.splits)

lemma Retry_checkContainerIsCreated:
  "Retry n (checkContainerIsCreated c ref) s = (r, s') \<Longrightarrow>
     resourceData s' = resourceData s \<and>
     (\<exists>k. 0 < k \<and> k \<le> Suc n \<and>
        calls s' = calls s @ replicate k (Call_CreateIfNotExists (refClient ref) (refName ref)) \<and>
        (r = None \<or> (k = Suc n \<and> (\<exists>e. r = Some (TimeoutExceeded e)))))"
proof (induction n arbitrary: s)
  case 0
  let ?X = "Call_CreateIfNotExists (refClient ref) (refName ref)"
  show ?case
  proof (cases "createResponse c (calls s) (refClient ref) (refName ref)")
    case (Inr created)
    then have "checkContainerIsCreated c ref s = (None, record_call ?X s)"
      by (simp add: checkContainerIsCreated_step)
    with "0.prems" have "r = None" "s' = record_call ?X s" by simp_all
    then show ?thesis
      by (intro conjI exI [of _ 1]) (simp_all add: record_call_def)
  next
    case (Inl err)
    then have "checkContainerIsCreated c ref s
                 = (Some \<lparr>Err = err, Retryable = True\<rparr>, record_call ?X s)"
      by (simp add: checkContainerIsCreated_step)
    with "0.prems" have "r = Some (TimeoutExceeded err)" "s' = record_call ?X s" by simp_all
    then show ?thesis
      by (intro conjI exI [of _ 1]) (simp_all add: record_call_def)
  qed
next
  case (Suc n)
  let ?X = "Call_CreateIfNotExists (refClient ref) (refName ref)"
  show ?case
  proof (cases "createResponse c (calls s) (refClient ref) (refName ref)")
    case (Inr created)
    then have "checkContainerIsCreated c ref s = (None, record_call ?X s)"
      by (simp add: checkContainerIsCreated_step)
    with Suc.prems have "r = None" "s' = record_call ?X s" by simp_all
    then show ?thesis
      by (intro conjI exI [of _ 1]) (simp_all add: record_call_def)
  next
    case (Inl err)
    then have "checkContainerIsCreated c ref s
                 = (Some \<lparr>Err = err, Retryable = True\<rparr>, record_call ?X s)"
      by (simp add: checkContainerIsCreated_step)
    with Suc.prems have "Retry n (checkContainerIsCreated c ref) (record_call ?X s) = (r, s')"
      by simp
    from Suc.IH [OF this] obtain k where
      d: "resourceData s' = resourceData (record_call ?X s)" and
      k: "0 < k" "k \<le> Suc n" "calls s' = calls (record_call ?X s) @ replicate k ?X"
         "r = None \<or> (k = Suc n \<and> (\<exists>e. r = Some (TimeoutExceeded e)))"
      by blast
    have "calls s' = calls s @ replicate (Suc k) ?X"
      using k(3) by (simp add: record_call_def replicate_app_Cons_same)
    moreover have "resourceData s' = resourceData s"
      using d by (simp add: record_call_def)
    ultimately show ?thesis
      using k(1,2,4) by (intro conjI exI [of _ "Suc k"]) auto
  qed
qed

lemma Retry_checkContainerIsCreated_attempts:
  "Retry n (checkContainerIsCreated c ref) s = (r, s') \<Longrightarrow>
     \<exists>k. 0 < k \<and> k \<le> Suc n \<and>
        resourceData s' = resourceData s \<and>
        calls s' = calls s @ replicate k (Call_CreateIfNotExists (refClient ref) (refName ref)) \<and>
        list_all (\<lambda>j. isl (createResponse c
                   (calls s @ replicate j (Call_CreateIfNotExists (refClient ref) (refName ref)))
                   (refClient ref) (refName ref))) [0..<k - 1] \<and>
        (case createResponse c
                (calls s @ replicate (k - 1) (Call_CreateIfNotExists (refClient ref) (refName ref)))
                (refClient ref) (refName ref) of
           Inr created \<Rightarrow> r = None
         | Inl err \<Rightarrow> k = Suc n \<and> r = Some (TimeoutExceeded err))"
proof (induction n arbitrary: s)
  case 0
  let ?X = "Call_CreateIfNotExists (refClient ref) (refName ref)"
  show ?case
  proof (cases "createResponse c (calls s) (refClient ref) (refName ref)")
    case (Inr created)
    then have "checkContainerIsCreated c ref s = (None, record_call ?X s)"
      by (simp add: checkContainerIsCreated_step)
    with "0.prems" have "r = None" "s' = record_call ?X s" by simp_all
    with Inr show ?thesis
      by (intro exI [of _ 1]) (simp add: record_call_def)
  next
    case (Inl err)
    then have "checkContainerIsCreated c ref s
                 = (Some \<lparr>Err = err, Retryable = True\<rparr>, record_call ?X s)"
      by (simp add: checkContainerIsCreated_step)
    with "0.prems" have "r = Some (TimeoutExceeded err)" "s' = record_call ?X s" by simp_all
    with Inl show ?thesis
      by (intro exI [of _ 1]) (simp add: record_call_def)
  qed
next
  case (Suc n)
  let ?X = "Call_CreateIfNotExists (refClient ref) (refName ref)"
  let ?resp = "\<lambda>h. createResponse c h (refClient ref) (refName ref)"
  show ?case
  proof (cases "createResponse c (calls s) (refClient ref) (refName ref)")
    case (Inr created)
    then have "checkContainerIsCreated c ref s = (None, record_call ?X s)"
      by (simp add: checkContainerIsCreated_step)
    with Suc.prems have "r = None" "s' = record_call ?X s" by simp_all
    with Inr show ?thesis
      by (intro exI [of _ 1]) (simp add: record_call_def)
  next
    case (Inl err)
    then have "checkContainerIsCreated c ref s
                 = (Some \<lparr>Err = err, Retryable = True\<rparr>, record_call ?X s)"
      by (simp add: checkContainerIsCreated_step)
    with Suc.prems have "Retry n (checkContainerIsCreated c ref) (record_call ?X s) = (r, s')"
      by simp
    from Suc.IH [OF this] obtain k where
      k: "0 < k" "k \<le> Suc n"
      and d: "resourceData s' = resourceData (record_call ?X s)"
      and cs: "calls s' = calls (record_call ?X s) @ replicate k ?X"
      and early: "list_all (\<lambda>j. isl (?resp (calls (record_call ?X s) @ replicate j ?X))) [0..<k - 1]"
      and final: "case ?resp (calls (record_call ?X s) @ replicate (k - 1) ?X) of
                    Inr created \<Rightarrow> r = None
                  | Inl err \<Rightarrow> k = Suc n \<and> r = Some (TimeoutExceeded err)"
      by blast
    have shift: "calls (record_call ?X s) @ replicate j ?X = calls s @ replicate (Suc j) ?X" for j
      by (simp add: record_call_def replicate_app_Cons_same)
    have 1: "calls s' = calls s @ replicate (Suc k) ?X"
      using cs by (simp add: shift)
    have 2: "resourceData s' = resourceData s"
      using d by (simp add: record_call_def)
    have 3: "list_all (\<lambda>j. isl (?resp (calls s @ replicate j ?X))) [0..<Suc k - 1]"
    proof -
      have "isl (?resp (calls s @ replicate j ?X))" if "j < k" for j
      proof (cases j)
        case 0
        with Inl show ?thesis by simp
      next
        case (Suc i)
        with that have "i < k - 1" by simp
        with early have "isl (?resp (calls (record_call ?X s) @ replicate i ?X))"
          by (simp add: list_all_iff)
        then show ?thesis by (simp add: shift Suc)
      qed
      then show ?thesis by (simp add: list_all_iff)
    qed
    have "calls (record_call ?X s) @ replicate (k - 1) ?X = calls s @ replicate k ?X"
      using k(1) by (cases k) (simp_all add: shift)
    with final have 4: "case ?resp (calls s @ replicate (Suc k - 1) ?X) of
                    Inr created \<Rightarrow> r = None
                  | Inl err \<Rightarrow> Suc k = Suc (Suc n) \<and> r = Some (TimeoutExceeded err)"
      by (simp split: sum.splits)
    show ?thesis
      using k 1 2 3 4 by (intro exI [of _ "Suc k"]) simp
  qed
qed

text \<open>
  The URI that the create function builds parses into its host and its path: none
  of the characters of the names is special to the parser.
\<close>

lemma hostChar_facts:
  "\<forall>c. hostChar c \<longrightarrow>
     c \<noteq> CHR ''#'' \<and> c \<noteq> CHR ''?'' \<and> c \<noteq> CHR ''/'' \<and> c \<noteq> CHR ''@'' \<and> c \<noteq> CHR '':''
     \<and> c \<noteq> CHR ''%'' \<and> c \<noteq> CHR ''['' \<and> c \<noteq> CHR ''+''
     \<and> \<not> shouldEscapeHost c \<and> \<not> (byte c < 32 \<or> byte c = 127)"
  by code_simp

lemma containerChar_facts:
  "\<forall>c. containerChar c \<longrightarrow>
     c \<noteq> CHR ''#'' \<and> c \<noteq> CHR ''?'' \<and> c \<noteq> CHR ''/'' \<and> c \<noteq> CHR ''%'' \<and> c \<noteq> CHR ''+''
     \<and> \<not> (byte c < 32 \<or> byte c = 127)"
  by code_simp

lemma accountChar_hostChar: "accountChar c \<Longrightarrow> hostChar c \<and> c \<noteq> CHR ''.''"
proof -
  have "\<forall>c. accountChar c \<longrightarrow> hostChar c \<and> c \<noteq> CHR ''.''"
    by code_simp
  then show "accountChar c \<Longrightarrow> hostChar c \<and> c \<noteq> CHR ''.''" by blast
qed

lemma unescape_plain:
  "CHR ''%'' \<notin> set s \<Longrightarrow> CHR ''+'' \<notin> set s \<Longrightarrow>
   (mode = encodeHost \<or> mode = encodeZone \<Longrightarrow> list_all (\<lambda>c. \<not> shouldEscapeHost c) s) \<Longrightarrow>
   unescape s mode = Inr s"
  by (induction s) auto

lemma Cut_absent: "sep \<notin> set s \<Longrightarrow> Cut s sep = (s, [], False)"
  by (simp add: Cut_def)

lemma LastIndexByte_absent: "c \<notin> set s \<Longrightarrow> LastIndexByte s c = None"
  by (simp add: LastIndexByte_def)

lemma getScheme_https: "getScheme (''https:'' @ r) = Inr (''https'', r)"
  by (simp add: getScheme_def isLower_def isUpper_def isDigit_def byte_def)

lemma strings_Replace1_suffix:
  "CHR ''.'' \<notin> set account \<Longrightarrow>
   strings_Replace1 (account @ CHR ''.'' # sfx) (CHR ''.'' # sfx) [] = account"
  by (induction account) auto


lemma takeWhile_upto_sep: "x \<notin> set h \<Longrightarrow> takeWhile (\<lambda>c. c \<noteq> x) (h @ x # p) = h"
  by (induction h) auto

lemma dropWhile_upto_sep: "x \<notin> set h \<Longrightarrow> dropWhile (\<lambda>c. c \<noteq> x) (h @ x # p) = x # p"
  by (induction h) auto

lemma url_Parse_encoded:
  assumes H: "list_all hostChar h" and h0: "h \<noteq> []"
      and P: "list_all containerChar p"
  shows "url_Parse (''https://'' @ h @ ''/'' @ p)
           = Inr (emptyURL\<lparr>Scheme := ''https'', Host := h, Path := ''/'' @ p\<rparr>)"
proof -
  let ?raw = "''https://'' @ h @ ''/'' @ p"
  let ?rest = "''//'' @ h @ ''/'' @ p"
  have hn: "CHR ''#'' \<notin> set h" "CHR ''?'' \<notin> set h" "CHR ''/'' \<notin> set h" "CHR ''@'' \<notin> set h"
    "CHR '':'' \<notin> set h" "CHR ''%'' \<notin> set h" "CHR ''['' \<notin> set h" "CHR ''+'' \<notin> set h"
    using H hostChar_facts by (auto simp: list_all_iff)
  have he: "list_all (\<lambda>c. \<not> shouldEscapeHost c) h"
    using H hostChar_facts by (auto simp: list_all_iff)
  have hc: "\<not> list_ex (\<lambda>c. byte c < 32 \<or> byte c = 127) h"
    using H hostChar_facts by (auto simp: list_all_iff list_ex_iff)
  have pn: "CHR ''#'' \<notin> set p" "CHR ''?'' \<notin> set p" "CHR ''%'' \<notin> set p" "CHR ''+'' \<notin> set p"
    using P containerChar_facts by (auto simp: list_all_iff)
  have pc: "\<not> list_ex (\<lambda>c. byte c < 32 \<or> byte c = 127) p"
    using P containerChar_facts by (auto simp: list_all_iff list_ex_iff)
  have cut: "Cut ?raw CHR ''#'' = (?raw, [], False)"
    using hn pn by (intro Cut_absent) simp
  have ctl: "\<not> stringContainsCTLByte ?raw"
    using hc pc by (simp add: stringContainsCTLByte_def byte_def)
  have star: "?raw \<noteq> ''*''" by simp
  have sch: "getScheme ?raw = Inr (''https'', ?rest)"
    using getScheme_https [of ?rest] by simp
  have q: "CHR ''?'' \<notin> set ?rest"
    using hn pn by simp
  have nosfx: "\<not> HasSuffix ?rest ''?''"
  proof
    assume "HasSuffix ?rest ''?''"
    then obtain zs where "?rest = zs @ ''?''"
      by (auto simp: HasSuffix_def suffix_def)
    then have "CHR ''?'' \<in> set ?rest" by (metis in_set_conv_decomp)
    with q show False by blast
  qed
  have cutq: "Cut ?rest CHR ''?'' = (?rest, [], False)"
    using q by (rule Cut_absent)
  have pre: "HasPrefix ?rest ''/''" "HasPrefix ?rest ''//''"
    by (simp_all add: HasPrefix_def)
  have low: "map lowerASCII ''https'' = ''https''"
    by (simp add: lowerASCII_def isUpper_def byte_def)
  have tw: "takeWhile (\<lambda>x. x \<noteq> CHR ''/'') (drop 2 ?rest) = h"
    "dropWhile (\<lambda>x. x \<noteq> CHR ''/'') (drop 2 ?rest) = ''/'' @ p"
    using hn(3) by (simp_all add: takeWhile_upto_sep dropWhile_upto_sep)
  have nb: "\<not> HasPrefix h ''[''"
    using hn(7) h0 by (cases h) (auto simp: HasPrefix_def)
  have ph: "parseHost h = Inr h"
    using nb hn(5) he hn(6) hn(8)
    by (simp add: parseHost_def LastIndexByte_absent unescape_plain)
  have pa: "parseAuthority h = Inr h"
    using hn(4) ph by (simp add: parseAuthority_def LastIndexByte_absent)
  have "unescape (''/'' @ p) encodePath = Inr (''/'' @ p)"
    using pn by (intro unescape_plain) auto
  then have sp: "setPath u (''/'' @ p) = Inr (u\<lparr>Path := ''/'' @ p\<rparr>)" for u
    unfolding setPath_def by (simp only: sum.case)
  have up: "url_parse ?raw
              = Inr (emptyURL\<lparr>Scheme := ''https'', Host := h, Path := ''/'' @ p\<rparr>)"
    unfolding url_parse_def Let_def
    by (simp only: ctl star sch nosfx cutq pre low tw pa sp if_False if_True sum.case prod.case
        fst_conv snd_conv simp_thms list.simps)
      (simp add: emptyURL_def lowerASCII_def isUpper_def byte_def)
  show ?thesis
    unfolding url_Parse_def
    by (simp only: cut fst_conv snd_conv up sum.case simp_thms if_True)
qed


section \<open>The validators\<close>

text \<open>
  Claim C4. \<open>validateArmStorageContainerName\<close> collects every violation: its error list
  holds one entry for each of the three rules (characters, length, first character)
  that the name breaks, in this order, and nothing else; so the list is as long as the
  number of rules broken and is empty exactly for the names that keep all three. The
  name \<open>-a\<close> gets at least two entries. No warning is ever returned.
\<close>

theorem validateName_accumulates:
  "fst (validateArmStorageContainerName v k) = []
   \<and> snd (validateArmStorageContainerName v k) =
        (if rule_charset v then [] else [OnlyLowercaseAlphanumericAndHyphens k v])
        @ (if rule_length v then [] else [MustBeBetween3And63Characters k v])
        @ (if rule_no_leading_hyphen v then [] else [CannotBeginWithHyphen k v])
   \<and> length (snd (validateArmStorageContainerName v k)) = violations v
   \<and> (snd (validateArmStorageContainerName v k) = []
        \<longleftrightarrow> rule_charset v \<and> rule_length v \<and> rule_no_leading_hyphen v)
   \<and> 2 \<le> length (snd (validateArmStorageContainerName ''-a'' k))"
proof -
  have e: "snd (validateArmStorageContainerName v k) =
        (if rule_charset v then [] else [OnlyLowercaseAlphanumericAndHyphens k v])
        @ (if rule_length v then [] else [MustBeBetween3And63Characters k v])
        @ (if rule_no_leading_hyphen v then [] else [CannotBeginWithHyphen k v])" for v
    by (simp add: validateArmStorageContainerName_def Let_def matchContainerName_rule
        matchLeadingHyphen_rule length_rule)
  have a: "\<not> rule_length ''-a''" "\<not> rule_no_leading_hyphen ''-a''"
    by (simp_all add: rule_length_def rule_no_leading_hyphen_def)
  show ?thesis
    apply (intro conjI)
        apply (simp add: validateArmStorageContainerName_def Let_def)
       apply (rule e)
      apply (simp add: e violations_def)
     apply (simp add: e)
    apply (simp add: e a)
    done
qed

text \<open>
  The theorem at four names: \<open>-a\<close> is too short and starts with a hyphen,
  \<open>My_Container\<close> breaks the character rule only, \<open>my-container\<close> and \<open>$root\<close> are valid.
\<close>

theorem validateName_accumulates_witness:
  "snd (validateArmStorageContainerName ''-a'' ''name'') =
     [MustBeBetween3And63Characters ''name'' ''-a'', CannotBeginWithHyphen ''name'' ''-a'']
   \<and> violations ''-a'' = 2
   \<and> snd (validateArmStorageContainerName ''My_Container'' ''name'') =
     [OnlyLowercaseAlphanumericAndHyphens ''name'' ''My_Container'']
   \<and> snd (validateArmStorageContainerName ''my-container'' ''name'') = []
   \<and> snd (validateArmStorageContainerName ''$root'' ''name'') = []"
proof -
  have r1: "rule_charset ''-a''" "\<not> rule_length ''-a''" "\<not> rule_no_leading_hyphen ''-a''"
    by (simp_all add: rule_charset_def rule_length_def rule_no_leading_hyphen_def)
  have r2: "\<not> rule_charset ''My_Container''" "rule_length ''My_Container''"
    "rule_no_leading_hyphen ''My_Container''"
    by (simp_all add: rule_charset_def rule_length_def rule_no_leading_hyphen_def)
  have r3: "rule_charset ''my-container''" "rule_length ''my-container''"
    "rule_no_leading_hyphen ''my-container''"
    by (simp_all add: rule_charset_def rule_length_def rule_no_leading_hyphen_def)
  have r4: "rule_charset ''$root''" "rule_length ''$root''" "rule_no_leading_hyphen ''$root''"
    by (simp_all add: rule_charset_def rule_length_def rule_no_leading_hyphen_def)
  show ?thesis
    using validateName_accumulates [of "''-a''" "''name''"]
      validateName_accumulates [of "''My_Container''" "''name''"]
      validateName_accumulates [of "''my-container''" "''name''"]
      validateName_accumulates [of "''$root''" "''name''"]
    by (simp add: r1 r2 r3 r4 violations_def)
qed

text \<open>
  Claim C8. \<open>validateArmStorageContainerAccessType\<close> returns no error exactly when the
  value is, up to case, one of \<open>private\<close>, \<open>blob\<close> and \<open>container\<close>; for any other value it
  returns one error, which carries the lower-cased value. No warning is ever returned.
\<close>

theorem accessType_validation:
  "fst (validateArmStorageContainerAccessType U v k) = []
   \<and> (snd (validateArmStorageContainerAccessType U v k) = []
        \<longleftrightarrow> sameUpToCase U v ''private'' \<or> sameUpToCase U v ''blob''
            \<or> sameUpToCase U v ''container'')
   \<and> (snd (validateArmStorageContainerAccessType U v k) \<noteq> []
        \<longrightarrow> snd (validateArmStorageContainerAccessType U v k)
              = [AccessTypeInvalid (strings_ToLower U v)])"
  by (auto simp: validateArmStorageContainerAccessType_def Let_def validTypes_def
      sameUpToCase_def ToLower_validTypes)

text \<open>The theorem at \<open>Blob\<close>, which is accepted, and at \<open>page\<close>, which is not.\<close>

theorem accessType_validation_witness:
  "snd (validateArmStorageContainerAccessType (\<lambda>s. s) ''Blob'' ''container_access_type'') = []
   \<and> snd (validateArmStorageContainerAccessType (\<lambda>s. s) ''page'' ''container_access_type'')
       = [AccessTypeInvalid ''page'']"
proof -
  have l: "strings_ToLower (\<lambda>s. s) ''Blob'' = ''blob''" "strings_ToLower (\<lambda>s. s) ''page'' = ''page''"
    unfolding strings_ToLower_def by code_simp+
  have "sameUpToCase (\<lambda>s. s) ''Blob'' ''blob''"
    by (simp add: sameUpToCase_def l ToLower_validTypes)
  moreover have "\<not> sameUpToCase (\<lambda>s. s) ''page'' ''private''"
    "\<not> sameUpToCase (\<lambda>s. s) ''page'' ''blob''" "\<not> sameUpToCase (\<lambda>s. s) ''page'' ''container''"
    by (simp_all add: sameUpToCase_def l ToLower_validTypes)
  ultimately show ?thesis
    using accessType_validation [of "\<lambda>s. s" "''Blob''" "''container_access_type''"]
      accessType_validation [of "\<lambda>s. s" "''page''" "''container_access_type''"]
    by (simp add: l)
qed


section \<open>The identity codec\<close>

text \<open>
  Claim C10. The check for a path without segments never fails. An identity with an
  empty path, or with the path \<open>/\<close>, decodes without error, to the empty container
  name. For no input at all does \<open>parseStorageContainerID\<close> return the error of that
  check, since splitting gives one segment at least: it fails exactly when the URI
  parser does.
\<close>

theorem zero_segment_check_never_fails:
  "parseStorageContainerID ''https://acct.core.windows.net'' publicCloud
     = Inr \<lparr>storageAccountName = ''acct'', containerName = []\<rparr>
   \<and> parseStorageContainerID ''https://acct.core.windows.net/'' publicCloud
     = Inr \<lparr>storageAccountName = ''acct'', containerName = []\<rparr>
   \<and> parseStorageContainerID input env \<noteq> Inl (ExpectedNumberOfSegments n)
   \<and> isl (parseStorageContainerID input env) = isl (url_Parse input)"
proof -
  have 1: "parseStorageContainerID ''https://acct.core.windows.net'' publicCloud
     = Inr \<lparr>storageAccountName = ''acct'', containerName = []\<rparr>"
    by code_simp
  have 2: "parseStorageContainerID ''https://acct.core.windows.net/'' publicCloud
     = Inr \<lparr>storageAccountName = ''acct'', containerName = []\<rparr>"
    by code_simp
  have 3: "parseStorageContainerID input env \<noteq> Inl (ExpectedNumberOfSegments n)
           \<and> isl (parseStorageContainerID input env) = isl (url_Parse input)"
    using strings_Split_nonempty [of "Path uri" "CHR ''/''" for uri]
    by (auto simp: parseStorageContainerID_def Let_def split: sum.splits list.splits)
  from 1 2 3 show ?thesis by simp
qed

text \<open>
  Claim C1. The round trip fails for every valid pair. Decoding the identity that the
  create function builds from an account name, an endpoint suffix and a container name
  that passes the validator returns the account name and the empty container name: the
  path of the URI starts with \<open>/\<close>, so its first segment is the empty string before
  that \<open>/\<close>. The container name itself is not empty.
\<close>

theorem decode_of_encode_loses_container:
  assumes "account \<noteq> []" and "list_all accountChar account"
      and "list_all hostChar sfx"
      and "snd (validateArmStorageContainerName container k) = []"
  shows "parseStorageContainerID (''https://'' @ account @ ''.'' @ sfx @ ''/'' @ container)
           \<lparr>StorageEndpointSuffix = sfx\<rparr>
         = Inr \<lparr>storageAccountName = account, containerName = []\<rparr>
         \<and> container \<noteq> []"
proof -
  have v: "matchContainerName container" "3 \<le> length container"
    using assms(4)
    by (auto simp: validateArmStorageContainerName_def Let_def split: if_splits)
  then have c0: "container \<noteq> []" by auto
  have root: "list_all containerChar ''$root''"
    by code_simp
  have "list_all containerChar container"
    using v(1) root unfolding matchContainerName_def
    by (auto simp: list_all_iff containerChar_def)
  moreover have hs: "list_all hostChar (account @ ''.'' @ sfx)"
    using assms(2,3) accountChar_hostChar by (auto simp: list_all_iff hostChar_def)
  moreover have "account @ ''.'' @ sfx \<noteq> []" by simp
  ultimately have u: "url_Parse (''https://'' @ (account @ ''.'' @ sfx) @ ''/'' @ container)
           = Inr (emptyURL\<lparr>Scheme := ''https'', Host := account @ ''.'' @ sfx,
                           Path := ''/'' @ container\<rparr>)"
    by (intro url_Parse_encoded)
  have dot: "CHR ''.'' \<notin> set account"
    using assms(2) accountChar_hostChar by (auto simp: list_all_iff)
  have r: "strings_Replace1 (account @ ''.'' @ sfx) (''.'' @ sfx) [] = account"
    using strings_Replace1_suffix [OF dot] by simp
  have "parseStorageContainerID (''https://'' @ account @ ''.'' @ sfx @ ''/'' @ container)
           \<lparr>StorageEndpointSuffix = sfx\<rparr>
         = Inr \<lparr>storageAccountName = account, containerName = []\<rparr>"
    using u r unfolding parseStorageContainerID_def
    by (simp add: emptyURL_def split: list.splits)
  with c0 show ?thesis by simp
qed

text \<open>The theorem at the account \<open>acct\<close> and the container \<open>my-container\<close>.\<close>

theorem decode_of_encode_loses_container_witness:
  "parseStorageContainerID ''https://acct.core.windows.net/my-container''
     \<lparr>StorageEndpointSuffix = ''core.windows.net''\<rparr>
   = Inr \<lparr>storageAccountName = ''acct'', containerName = []\<rparr>"
proof -
  have a: "''acct'' \<noteq> []" "list_all accountChar ''acct''" "list_all hostChar ''core.windows.net''"
    by code_simp+
  have b: "snd (validateArmStorageContainerName ''my-container'' ''name'') = []"
    by code_simp
  show ?thesis
    using decode_of_encode_loses_container [OF a b] by simp
qed


section \<open>Create\<close>

text \<open>
  Claim C2, as amended. \<open>checkContainerIsCreated\<close> marks every error of
  \<open>CreateIfNotExists\<close> as retryable, whatever its kind. So in the retry loop around it
  an attempt that fails is followed by another attempt while the timeout allows one,
  and ends the loop with \<open>TimeoutExceeded\<close> when it was the last one allowed; an
  attempt that succeeds ends the loop with success. The loop as a whole makes \<open>k\<close>
  calls of \<open>CreateIfNotExists\<close> and nothing else: the first \<open>k - 1\<close> of them fail, and
  the loop succeeds exactly when the last one succeeds; when the last one fails, all
  the attempts that the timeout allows have been made.
\<close>

theorem every_create_error_is_retried:
  "fst (checkContainerIsCreated c ref s) =
     (case createResponse c (calls s) (refClient ref) (refName ref) of
        Inl err \<Rightarrow> Some \<lparr>Err = err, Retryable = True\<rparr>
      | Inr created \<Rightarrow> None)
   \<and> (\<forall>err. createResponse c (calls s) (refClient ref) (refName ref) = Inl err \<longrightarrow>
         Retry (Suc n) (checkContainerIsCreated c ref) s =
           Retry n (checkContainerIsCreated c ref)
             (record_call (Call_CreateIfNotExists (refClient ref) (refName ref)) s)
         \<and> Retry 0 (checkContainerIsCreated c ref) s =
             (Some (TimeoutExceeded err),
              record_call (Call_CreateIfNotExists (refClient ref) (refName ref)) s))
   \<and> (\<forall>created. createResponse c (calls s) (refClient ref) (refName ref) = Inr created \<longrightarrow>
         Retry n (checkContainerIsCreated c ref) s =
           (None, record_call (Call_CreateIfNotExists (refClient ref) (refName ref)) s))
   \<and> (\<exists>k. 0 < k \<and> k \<le> Suc n \<and>
         resourceData (snd (Retry n (checkContainerIsCreated c ref) s)) = resourceData s \<and>
         calls (snd (Retry n (checkContainerIsCreated c ref) s))
           = calls s @ replicate k (Call_CreateIfNotExists (refClient ref) (refName ref)) \<and>
         list_all (\<lambda>j. isl (createResponse c
                    (calls s @ replicate j (Call_CreateIfNotExists (refClient ref) (refName ref)))
                    (refClient ref) (refName ref))) [0..<k - 1] \<and>
         (case createResponse c
                 (calls s @ replicate (k - 1) (Call_CreateIfNotExists (refClient ref) (refName ref)))
                 (refClient ref) (refName ref) of
            Inr created \<Rightarrow> fst (Retry n (checkContainerIsCreated c ref) s) = None
          | Inl err \<Rightarrow>
              k = Suc n \<and>
              fst (Retry n (checkContainerIsCreated c ref) s) = Some (TimeoutExceeded err)))"
proof -
  let ?X = "Call_CreateIfNotExists (refClient ref) (refName ref)"
  have a: "fst (checkContainerIsCreated c ref s) =
     (case createResponse c (calls s) (refClient ref) (refName ref) of
        Inl err \<Rightarrow> Some \<lparr>Err = err, Retryable = True\<rparr>
      | Inr created \<Rightarrow> None)"
    by (simp add: checkContainerIsCreated_step)
  have b: "Retry (Suc n) (checkContainerIsCreated c ref) s =
           Retry n (checkContainerIsCreated c ref) (record_call ?X s)
         \<and> Retry 0 (checkContainerIsCreated c ref) s =
             (Some (TimeoutExceeded err), record_call ?X s)"
    if "createResponse c (calls s) (refClient ref) (refName ref) = Inl err" for err
  proof -
    from that have "checkContainerIsCreated c ref s
                 = (Some \<lparr>Err = err, Retryable = True\<rparr>, record_call ?X s)"
      by (simp add: checkContainerIsCreated_step)
    then show ?thesis by simp
  qed
  have d: "Retry n (checkContainerIsCreated c ref) s = (None, record_call ?X s)"
    if "createResponse c (calls s) (refClient ref) (refName ref) = Inr created" for created
  proof -
    from that have "checkContainerIsCreated c ref s = (None, record_call ?X s)"
      by (simp add: checkContainerIsCreated_step)
    then show ?thesis by (cases n) simp_all
  qed
  obtain r s' where R: "Retry n (checkContainerIsCreated c ref) s = (r, s')"
    by (cases "Retry n (checkContainerIsCreated c ref) s")
  have e: "\<exists>k. 0 < k \<and> k \<le> Suc n \<and>
         resourceData (snd (Retry n (checkContainerIsCreated c ref) s)) = resourceData s \<and>
         calls (snd (Retry n (checkContainerIsCreated c ref) s)) = calls s @ replicate k ?X \<and>
         list_all (\<lambda>j. isl (createResponse c (calls s @ replicate j ?X)
                    (refClient ref) (refName ref))) [0..<k - 1] \<and>
         (case createResponse c (calls s @ replicate (k - 1) ?X) (refClient ref) (refName ref) of
            Inr created \<Rightarrow> fst (Retry n (checkContainerIsCreated c ref) s) = None
          | Inl err \<Rightarrow>
              k = Suc n \<and>
              fst (Retry n (checkContainerIsCreated c ref) s) = Some (TimeoutExceeded err))"
    using Retry_checkContainerIsCreated_attempts [OF R] unfolding R fst_conv snd_conv .
  from a b d e show ?thesis by blast
qed

text \<open>
  The theorem on the remote side whose first answer is a non-retryable error and
  whose second answer is a success, and on the remote side that always fails, with
  no retry left.
\<close>

theorem every_create_error_is_retried_witness:
  "Retry (Suc 2) (checkContainerIsCreated remoteFatalOnce (GetContainerReference ''acct'' ''data''))
      (declared ''private'')
     = (None, (declared ''private'')
                \<lparr>calls := [Call_CreateIfNotExists ''acct'' ''data'',
                           Call_CreateIfNotExists ''acct'' ''data'']\<rparr>)
   \<and> Retry 0 (checkContainerIsCreated remoteAlwaysTransient (GetContainerReference ''acct'' ''data''))
      (declared ''private'')
     = (Some (TimeoutExceeded (TransientError ''container is being deleted'')),
        (declared ''private'')\<lparr>calls := [Call_CreateIfNotExists ''acct'' ''data'']\<rparr>)"
proof -
  let ?ref = "GetContainerReference ''acct'' ''data''"
  let ?s = "declared ''private''"
  let ?X = "Call_CreateIfNotExists (refClient ?ref) (refName ?ref)"
  have h1: "createResponse remoteFatalOnce (calls ?s) (refClient ?ref) (refName ?ref)
              = Inl (FatalError ''403 authentication failed'')"
    by code_simp
  have h2: "createResponse remoteFatalOnce (calls (record_call ?X ?s)) (refClient ?ref) (refName ?ref)
              = Inr True"
    by code_simp
  have h3: "createResponse remoteAlwaysTransient (calls ?s) (refClient ?ref) (refName ?ref)
              = Inl (TransientError ''container is being deleted'')"
    by code_simp
  have t1: "Retry (Suc 2) (checkContainerIsCreated remoteFatalOnce ?ref) ?s
              = Retry 2 (checkContainerIsCreated remoteFatalOnce ?ref) (record_call ?X ?s)"
    using every_create_error_is_retried
      [where c = remoteFatalOnce and ref = ?ref and s = ?s and n = 2] h1
    by blast
  have t2: "Retry 2 (checkContainerIsCreated remoteFatalOnce ?ref) (record_call ?X ?s)
              = (None, record_call ?X (record_call ?X ?s))"
    using every_create_error_is_retried
      [where c = remoteFatalOnce and ref = ?ref and s = "record_call ?X ?s" and n = 2] h2
    by blast
  have t3: "Retry 0 (checkContainerIsCreated remoteAlwaysTransient ?ref) ?s
              = (Some (TimeoutExceeded (TransientError ''container is being deleted'')),
                 record_call ?X ?s)"
    using every_create_error_is_retried
      [where c = remoteAlwaysTransient and ref = ?ref and s = ?s and n = 0] h3
    by blast
  have st: "record_call ?X (record_call ?X ?s)
              = ?s\<lparr>calls := [Call_CreateIfNotExists ''acct'' ''data'',
                               Call_CreateIfNotExists ''acct'' ''data'']\<rparr>"
    "record_call ?X ?s = ?s\<lparr>calls := [Call_CreateIfNotExists ''acct'' ''data'']\<rparr>"
    by (simp_all add: record_call_def declared_def GetContainerReference_def)
  have "Retry (Suc 2) (checkContainerIsCreated remoteFatalOnce ?ref) ?s
          = (None, record_call ?X (record_call ?X ?s))"
    using t1 t2 by (rule trans)
  then have e1: "Retry (Suc 2) (checkContainerIsCreated remoteFatalOnce ?ref) ?s
          = (None, ?s\<lparr>calls := [Call_CreateIfNotExists ''acct'' ''data'',
                                   Call_CreateIfNotExists ''acct'' ''data'']\<rparr>)"
    by (simp only: st(1))
  have e3: "Retry 0 (checkContainerIsCreated remoteAlwaysTransient ?ref) ?s
              = (Some (TimeoutExceeded (TransientError ''container is being deleted'')),
                 ?s\<lparr>calls := [Call_CreateIfNotExists ''acct'' ''data'']\<rparr>)"
    using t3 by (simp only: st(2))
  from e1 e3 show ?thesis by (rule conjI)
qed

text \<open>
  Claim C2 as stated fails: on a remote side whose first answer to \<open>CreateIfNotExists\<close>
  is a non-retryable error, the create function calls \<open>CreateIfNotExists\<close> a second
  time, and goes on to succeed.
\<close>

theorem fatal_create_error_is_retried:
  "createResponse remoteFatalOnce [Call_getBlobStorageClientForStorageAccount ''rg1'' ''acct'']
      ''acct'' ''data'' = Inl (FatalError ''403 authentication failed'')
   \<and> fst (resourceArmStorageContainerCreate remoteFatalOnce (declared ''private'')) = None
   \<and> calls (snd (resourceArmStorageContainerCreate remoteFatalOnce (declared ''private''))) =
       [Call_getBlobStorageClientForStorageAccount ''rg1'' ''acct'',
        Call_CreateIfNotExists ''acct'' ''data'',
        Call_CreateIfNotExists ''acct'' ''data'',
        Call_SetPermissions ''acct'' ''data'' [],
        Call_determineResourceGroupForStorageAccount ''acct'',
        Call_getBlobStorageClientForStorageAccount ''rg1'' ''acct'',
        Call_ListContainers ''acct'' []]"
  by code_simp

text \<open>
  Claim C5. The validator accepts the access type \<open>Private\<close>, but the create function
  compares the declared value with \<open>private\<close> exactly: it does not replace \<open>Private\<close> by
  the empty string, and \<open>SetPermissions\<close> is called with \<open>Private\<close>.
\<close>

theorem mixed_case_private_is_passed_through:
  "snd (validateArmStorageContainerAccessType unicodeLower ''Private'' ''container_access_type'') = []
   \<and> accessTypeOf ''Private'' = ''Private''
   \<and> calls (snd (resourceArmStorageContainerCreate remoteHealthy (declared ''Private''))) ! 2
       = Call_SetPermissions ''acct'' ''data'' ''Private''"
proof -
  have "strings_ToLower unicodeLower ''Private'' = ''private''"
    unfolding strings_ToLower_def by code_simp
  then have "snd (validateArmStorageContainerAccessType unicodeLower ''Private'' ''container_access_type'') = []"
    by (simp add: validateArmStorageContainerAccessType_def validTypes_def)
  moreover have "accessTypeOf ''Private'' = ''Private''"
    by (simp add: accessTypeOf_def)
  moreover have "calls (snd (resourceArmStorageContainerCreate remoteHealthy (declared ''Private''))) ! 2
       = Call_SetPermissions ''acct'' ''data'' ''Private''"
    by code_simp
  ultimately show ?thesis by simp
qed

text \<open>
  Claim C6. When the storage account is there and the retry loop around
  \<open>CreateIfNotExists\<close> ends with an error, the create function returns the creation
  error that carries it, the resource data are as before (the identity is not set), and
  the calls made are the account lookup and the attempts of \<open>CreateIfNotExists\<close>, one
  more than the retries that fit into 120 seconds: \<open>SetPermissions\<close> is not called. The
  error of the loop is always \<open>TimeoutExceeded\<close>.
\<close>

theorem create_failure_leaves_identity:
  assumes "storageAccountResponse c (calls s) (resource_group_name (resourceData s))
             (storage_account_name (resourceData s)) = Inr True"
      and "fst (Retry (retriesWithin c 120)
             (checkContainerIsCreated c
                (GetContainerReference (storage_account_name (resourceData s)) (name (resourceData s))))
             (record_call (Call_getBlobStorageClientForStorageAccount
                (resource_group_name (resourceData s)) (storage_account_name (resourceData s))) s))
           = Some err"
  shows "fst (resourceArmStorageContainerCreate c s) =
           Some (ErrorCreatingContainer (name (resourceData s))
                   (storage_account_name (resourceData s)) err)
         \<and> resourceData (snd (resourceArmStorageContainerCreate c s)) = resourceData s
         \<and> calls (snd (resourceArmStorageContainerCreate c s)) =
             calls s @ Call_getBlobStorageClientForStorageAccount
                         (resource_group_name (resourceData s)) (storage_account_name (resourceData s))
                     # replicate (Suc (retriesWithin c 120))
                         (Call_CreateIfNotExists (storage_account_name (resourceData s))
                            (name (resourceData s)))
         \<and> (\<exists>e. err = TimeoutExceeded e)"
proof -
  let ?rg = "resource_group_name (resourceData s)"
  let ?acct = "storage_account_name (resourceData s)"
  let ?nm = "name (resourceData s)"
  let ?s1 = "record_call (Call_getBlobStorageClientForStorageAccount ?rg ?acct) s"
  let ?ref = "GetContainerReference ?acct ?nm"
  obtain r s2 where R: "Retry (retriesWithin c 120) (checkContainerIsCreated c ?ref) ?s1 = (r, s2)"
    by (cases "Retry (retriesWithin c 120) (checkContainerIsCreated c ?ref) ?s1")
  with assms(2) have r: "r = Some err" by simp
  from Retry_checkContainerIsCreated [OF R] r obtain k where
    d: "resourceData s2 = resourceData ?s1" and
    k: "calls s2 = calls ?s1 @ replicate k (Call_CreateIfNotExists (refClient ?ref) (refName ?ref))"
       "k = Suc (retriesWithin c 120)" "\<exists>e. err = TimeoutExceeded e"
    by auto
  have g: "getBlobStorageClientForStorageAccount c ?rg ?acct s = (Inr (?acct, True), ?s1)"
    using assms(1) by (simp add: getBlobStorageClientForStorageAccount_def)
  have s1: "resourceData ?s1 = resourceData s" "calls ?s1 = calls s @ [Call_getBlobStorageClientForStorageAccount ?rg ?acct]"
    by (simp_all add: record_call_def)
  have C: "resourceArmStorageContainerCreate c s = (Some (ErrorCreatingContainer ?nm ?acct err), s2)"
    unfolding resourceArmStorageContainerCreate_def Let_def
    by (simp add: g s1 R r)
  show ?thesis
    using d k by (simp add: C s1 GetContainerReference_def)
qed

text \<open>The theorem on the remote side where every attempt fails with a retryable error.\<close>

theorem create_failure_leaves_identity_witness:
  "resourceArmStorageContainerCreate remoteAlwaysTransient (declared ''private'') =
     (Some (ErrorCreatingContainer ''data'' ''acct''
              (TimeoutExceeded (TransientError ''container is being deleted''))),
      \<lparr>resourceData = resourceData (declared ''private''),
       calls = [Call_getBlobStorageClientForStorageAccount ''rg1'' ''acct'',
                Call_CreateIfNotExists ''acct'' ''data'', Call_CreateIfNotExists ''acct'' ''data'',
                Call_CreateIfNotExists ''acct'' ''data'', Call_CreateIfNotExists ''acct'' ''data'']\<rparr>)"
proof -
  have h1: "storageAccountResponse remoteAlwaysTransient (calls (declared ''private''))
              (resource_group_name (resourceData (declared ''private'')))
              (storage_account_name (resourceData (declared ''private''))) = Inr True"
    by code_simp
  have h2: "fst (Retry (retriesWithin remoteAlwaysTransient 120)
             (checkContainerIsCreated remoteAlwaysTransient
                (GetContainerReference (storage_account_name (resourceData (declared ''private'')))
                   (name (resourceData (declared ''private'')))))
             (record_call (Call_getBlobStorageClientForStorageAccount
                (resource_group_name (resourceData (declared ''private'')))
                (storage_account_name (resourceData (declared ''private''))))
                (declared ''private'')))
           = Some (TimeoutExceeded (TransientError ''container is being deleted''))"
    by code_simp
  have n: "retriesWithin remoteAlwaysTransient 120 = 3"
    by code_simp
  show ?thesis
    using create_failure_leaves_identity [OF h1 h2]
    by (cases "resourceArmStorageContainerCreate remoteAlwaysTransient (declared ''private'')")
      (simp add: n declared_def numeral_3_eq_3)
qed


section \<open>Read, exists and delete\<close>

text \<open>
  Claim C3. On an identity that decodes, the read function returns without error and
  with the identity set to the empty string when the resource group of the account is
  not found, when the storage account is reported absent, and when no container of the
  listing has the decoded container name; when the listing has a container of exactly
  that name, the identity stays as it is.
\<close>

theorem read_clears_identity_on_drift:
  assumes "parseStorageContainerID (dId (resourceData s)) (environment c) = Inr ident"
  shows
   "(resourceGroupResponse c (calls s) (storageAccountName ident) = Inr None \<longrightarrow>
       fst (resourceArmStorageContainerRead c s) = None \<and>
       dId (resourceData (snd (resourceArmStorageContainerRead c s))) = [])
    \<and> (\<forall>g. resourceGroupResponse c (calls s) (storageAccountName ident) = Inr (Some g) \<and>
            storageAccountResponse c
              (calls s @ [Call_determineResourceGroupForStorageAccount (storageAccountName ident)])
              g (storageAccountName ident) = Inr False \<longrightarrow>
       fst (resourceArmStorageContainerRead c s) = None \<and>
       dId (resourceData (snd (resourceArmStorageContainerRead c s))) = [])
    \<and> (\<forall>g cs. resourceGroupResponse c (calls s) (storageAccountName ident) = Inr (Some g) \<and>
            storageAccountResponse c
              (calls s @ [Call_determineResourceGroupForStorageAccount (storageAccountName ident)])
              g (storageAccountName ident) = Inr True \<and>
            listResponse c
              (calls s @ [Call_determineResourceGroupForStorageAccount (storageAccountName ident),
                          Call_getBlobStorageClientForStorageAccount g (storageAccountName ident)])
              (storageAccountName ident) (containerName ident) = Inr cs \<longrightarrow>
       fst (resourceArmStorageContainerRead c s) = None \<and>
       dId (resourceData (snd (resourceArmStorageContainerRead c s))) =
         (if list_ex (\<lambda>cont. Name cont = containerName ident) cs
          then dId (resourceData s) else []))"
  using assms
  by (auto simp: resourceArmStorageContainerRead_def determineResourceGroupForStorageAccount_def
      getBlobStorageClientForStorageAccount_def ListContainers_def record_call_def SetId_def
      Set_properties_def find_name_None split: option.splits dest: find_name_Some)

text \<open>
  The theorem on the three remote sides with something missing (the listing holds
  \<open>data-archive\<close>, which starts with the decoded name \<open>data-arch\<close> and is not equal to
  it), on the remote side that holds the decoded name \<open>data\<close>, and on an identity as the
  create function builds it.
\<close>

theorem read_clears_identity_on_drift_witness:
  "dId (resourceData (snd (resourceArmStorageContainerRead remoteNoResourceGroup
      (tracked ''data-arch'')))) = []
   \<and> dId (resourceData (snd (resourceArmStorageContainerRead remoteNoAccount
      (tracked ''data-arch'')))) = []
   \<and> dId (resourceData (snd (resourceArmStorageContainerRead remoteNoContainer
      (tracked ''data-arch'')))) = []
   \<and> dId (resourceData (snd (resourceArmStorageContainerRead remoteHealthy
      (tracked ''data'')))) = ''data''
   \<and> dId (resourceData (snd (resourceArmStorageContainerRead remoteHealthy
      (tracked ''https://acct.core.windows.net/data'')))) = []"
proof -
  have p1: "parseStorageContainerID (dId (resourceData (tracked ''data-arch''))) publicCloud
              = Inr \<lparr>storageAccountName = [], containerName = ''data-arch''\<rparr>"
    by code_simp
  have p2: "parseStorageContainerID (dId (resourceData (tracked ''data''))) publicCloud
              = Inr \<lparr>storageAccountName = [], containerName = ''data''\<rparr>"
    by code_simp
  have p3: "parseStorageContainerID (dId (resourceData (tracked ''https://acct.core.windows.net/data'')))
              publicCloud = Inr \<lparr>storageAccountName = ''acct'', containerName = []\<rparr>"
    by code_simp
  have e: "environment remoteNoResourceGroup = publicCloud" "environment remoteNoAccount = publicCloud"
    "environment remoteNoContainer = publicCloud" "environment remoteHealthy = publicCloud"
    by (simp_all add: remoteNoResourceGroup_def remoteNoAccount_def remoteNoContainer_def
        remoteHealthy_def)
  show ?thesis
    using read_clears_identity_on_drift [of "tracked ''data-arch''" remoteNoResourceGroup, OF p1 [folded e(1)]]
      read_clears_identity_on_drift [of "tracked ''data-arch''" remoteNoAccount, OF p1 [folded e(2)]]
      read_clears_identity_on_drift [of "tracked ''data-arch''" remoteNoContainer, OF p1 [folded e(3)]]
      read_clears_identity_on_drift [of "tracked ''data''" remoteHealthy, OF p2 [folded e(4)]]
      read_clears_identity_on_drift [of "tracked ''https://acct.core.windows.net/data''" remoteHealthy,
        OF p3 [folded e(4)]]
    by (simp add: remoteNoResourceGroup_def remoteNoAccount_def remoteNoContainer_def
        remoteHealthy_def tracked_def)
qed

text \<open>
  Claim C7, as amended. On an identity that decodes, the exists function returns false
  without error when the resource group is not found, when the storage account is
  reported absent and when the container does not exist. It leaves the resource data as
  they are in the first and the third case; in the second case it sets the identity to
  the empty string.
\<close>

theorem exists_outcomes:
  assumes "parseStorageContainerID (dId (resourceData s)) (environment c) = Inr ident"
  shows
   "(resourceGroupResponse c (calls s) (storageAccountName ident) = Inr None \<longrightarrow>
       fst (resourceArmStorageContainerExists c s) = Inr False \<and>
       resourceData (snd (resourceArmStorageContainerExists c s)) = resourceData s)
    \<and> (\<forall>g. resourceGroupResponse c (calls s) (storageAccountName ident) = Inr (Some g) \<and>
            storageAccountResponse c
              (calls s @ [Call_determineResourceGroupForStorageAccount (storageAccountName ident)])
              g (storageAccountName ident) = Inr False \<longrightarrow>
       fst (resourceArmStorageContainerExists c s) = Inr False \<and>
       resourceData (snd (resourceArmStorageContainerExists c s)) = (resourceData s)\<lparr>dId := []\<rparr>)
    \<and> (\<forall>g. resourceGroupResponse c (calls s) (storageAccountName ident) = Inr (Some g) \<and>
            storageAccountResponse c
              (calls s @ [Call_determineResourceGroupForStorageAccount (storageAccountName ident)])
              g (storageAccountName ident) = Inr True \<and>
            existsResponse c
              (calls s @ [Call_determineResourceGroupForStorageAccount (storageAccountName ident),
                          Call_getBlobStorageClientForStorageAccount g (storageAccountName ident)])
              (storageAccountName ident) (containerName ident) = Inr False \<longrightarrow>
       fst (resourceArmStorageContainerExists c s) = Inr False \<and>
       resourceData (snd (resourceArmStorageContainerExists c s)) = resourceData s)"
  using assms
  by (auto simp: resourceArmStorageContainerExists_def determineResourceGroupForStorageAccount_def
      getBlobStorageClientForStorageAccount_def Exists_def GetContainerReference_def
      record_call_def SetId_def)

text \<open>The theorem on the three remote sides with something missing.\<close>

theorem exists_outcomes_witness:
  "resourceArmStorageContainerExists remoteNoResourceGroup (tracked ''https://acct.core.windows.net/data'')
     = (Inr False,
        (tracked ''https://acct.core.windows.net/data'')
          \<lparr>calls := [Call_determineResourceGroupForStorageAccount ''acct'']\<rparr>)
   \<and> resourceArmStorageContainerExists remoteNoAccount (tracked ''https://acct.core.windows.net/data'')
     = (Inr False,
        (tracked [])
          \<lparr>calls := [Call_determineResourceGroupForStorageAccount ''acct'',
                     Call_getBlobStorageClientForStorageAccount ''rg1'' ''acct'']\<rparr>)
   \<and> resourceArmStorageContainerExists remoteNoContainer (tracked ''https://acct.core.windows.net/data'')
     = (Inr False,
        (tracked ''https://acct.core.windows.net/data'')
          \<lparr>calls := [Call_determineResourceGroupForStorageAccount ''acct'',
                     Call_getBlobStorageClientForStorageAccount ''rg1'' ''acct'',
                     Call_Exists ''acct'' []]\<rparr>)"
proof -
  let ?s = "tracked ''https://acct.core.windows.net/data''"
  have p: "parseStorageContainerID (dId (resourceData ?s)) publicCloud
             = Inr \<lparr>storageAccountName = ''acct'', containerName = []\<rparr>"
    by code_simp
  have e: "environment remoteNoResourceGroup = publicCloud" "environment remoteNoAccount = publicCloud"
    "environment remoteNoContainer = publicCloud"
    by (simp_all add: remoteNoResourceGroup_def remoteNoAccount_def remoteNoContainer_def
        remoteHealthy_def)
  have c1: "calls (snd (resourceArmStorageContainerExists remoteNoResourceGroup ?s))
              = [Call_determineResourceGroupForStorageAccount ''acct'']"
    by code_simp
  have c2: "calls (snd (resourceArmStorageContainerExists remoteNoAccount ?s))
              = [Call_determineResourceGroupForStorageAccount ''acct'',
                 Call_getBlobStorageClientForStorageAccount ''rg1'' ''acct'']"
    by code_simp
  have c3: "calls (snd (resourceArmStorageContainerExists remoteNoContainer ?s))
              = [Call_determineResourceGroupForStorageAccount ''acct'',
                 Call_getBlobStorageClientForStorageAccount ''rg1'' ''acct'',
                 Call_Exists ''acct'' []]"
    by code_simp
  have eq: "\<And>x r (t::state). fst x = r \<Longrightarrow> resourceData (snd x) = resourceData t
              \<Longrightarrow> calls (snd x) = calls t \<Longrightarrow> x = (r, t)"
    by (auto simp: prod_eq_iff)
  have a1: "resourceArmStorageContainerExists remoteNoResourceGroup ?s
              = (Inr False, ?s\<lparr>calls := [Call_determineResourceGroupForStorageAccount ''acct'']\<rparr>)"
    using exists_outcomes [of ?s remoteNoResourceGroup, OF p [folded e(1)]] c1
    by (intro eq) (simp_all add: remoteNoResourceGroup_def remoteHealthy_def)
  have a2: "resourceArmStorageContainerExists remoteNoAccount ?s
              = (Inr False, (tracked [])\<lparr>calls := [Call_determineResourceGroupForStorageAccount ''acct'',
                     Call_getBlobStorageClientForStorageAccount ''rg1'' ''acct'']\<rparr>)"
    using exists_outcomes [of ?s remoteNoAccount, OF p [folded e(2)]] c2
    by (intro eq) (simp_all add: remoteNoAccount_def remoteHealthy_def tracked_def)
  have a3: "resourceArmStorageContainerExists remoteNoContainer ?s
              = (Inr False, ?s\<lparr>calls := [Call_determineResourceGroupForStorageAccount ''acct'',
                     Call_getBlobStorageClientForStorageAccount ''rg1'' ''acct'',
                     Call_Exists ''acct'' []]\<rparr>)"
    using exists_outcomes [of ?s remoteNoContainer, OF p [folded e(3)]] c3
    by (intro eq) (simp_all add: remoteNoContainer_def remoteHealthy_def)
  show ?thesis using a1 a2 a3 by simp
qed

text \<open>
  Claim C7 as stated fails: when the storage account is reported absent, the exists
  function returns false and the identity, which was set before the call, is empty
  after it.
\<close>

theorem exists_clears_identity_when_account_absent:
  "fst (resourceArmStorageContainerExists remoteNoAccount (tracked ''https://acct.core.windows.net/data''))
     = Inr False
   \<and> dId (resourceData (tracked ''https://acct.core.windows.net/data''))
       = ''https://acct.core.windows.net/data''
   \<and> dId (resourceData (snd (resourceArmStorageContainerExists remoteNoAccount
         (tracked ''https://acct.core.windows.net/data'')))) = []"
  by code_simp

text \<open>
  Claim C9. On an identity that decodes, the delete function returns without error and
  without a call of \<open>DeleteIfExists\<close> when the resource group is not found (the only
  call is the lookup of the resource group) and when the storage account is reported
  absent (the only calls are the two lookups). When both are there, it calls
  \<open>DeleteIfExists\<close> once and returns without error whether the container was there or
  not. The resource data are never changed.
\<close>

theorem delete_without_parent_is_noop:
  assumes "parseStorageContainerID (dId (resourceData s)) (environment c) = Inr ident"
  shows
   "(resourceGroupResponse c (calls s) (storageAccountName ident) = Inr None \<longrightarrow>
       resourceArmStorageContainerDelete c s =
         (None, s\<lparr>calls := calls s @
                    [Call_determineResourceGroupForStorageAccount (storageAccountName ident)]\<rparr>))
    \<and> (\<forall>g. resourceGroupResponse c (calls s) (storageAccountName ident) = Inr (Some g) \<and>
            storageAccountResponse c
              (calls s @ [Call_determineResourceGroupForStorageAccount (storageAccountName ident)])
              g (storageAccountName ident) = Inr False \<longrightarrow>
       resourceArmStorageContainerDelete c s =
         (None, s\<lparr>calls := calls s @
                    [Call_determineResourceGroupForStorageAccount (storageAccountName ident),
                     Call_getBlobStorageClientForStorageAccount g (storageAccountName ident)]\<rparr>))
    \<and> (\<forall>g deleted. resourceGroupResponse c (calls s) (storageAccountName ident) = Inr (Some g) \<and>
            storageAccountResponse c
              (calls s @ [Call_determineResourceGroupForStorageAccount (storageAccountName ident)])
              g (storageAccountName ident) = Inr True \<and>
            deleteResponse c
              (calls s @ [Call_determineResourceGroupForStorageAccount (storageAccountName ident),
                          Call_getBlobStorageClientForStorageAccount g (storageAccountName ident)])
              (storageAccountName ident) (containerName ident) = Inr deleted \<longrightarrow>
       resourceArmStorageContainerDelete c s =
         (None, s\<lparr>calls := calls s @
                    [Call_determineResourceGroupForStorageAccount (storageAccountName ident),
                     Call_getBlobStorageClientForStorageAccount g (storageAccountName ident),
                     Call_DeleteIfExists (storageAccountName ident) (containerName ident)]\<rparr>))"
  using assms
  by (auto simp: resourceArmStorageContainerDelete_def determineResourceGroupForStorageAccount_def
      getBlobStorageClientForStorageAccount_def DeleteIfExists_def GetContainerReference_def
      record_call_def)

text \<open>The theorem on the three remote sides with something missing.\<close>

theorem delete_without_parent_is_noop_witness:
  "resourceArmStorageContainerDelete remoteNoResourceGroup (tracked ''https://acct.core.windows.net/data'')
     = (None, (tracked ''https://acct.core.windows.net/data'')
                \<lparr>calls := [Call_determineResourceGroupForStorageAccount ''acct'']\<rparr>)
   \<and> resourceArmStorageContainerDelete remoteNoAccount (tracked ''https://acct.core.windows.net/data'')
     = (None, (tracked ''https://acct.core.windows.net/data'')
                \<lparr>calls := [Call_determineResourceGroupForStorageAccount ''acct'',
                           Call_getBlobStorageClientForStorageAccount ''rg1'' ''acct'']\<rparr>)
   \<and> resourceArmStorageContainerDelete remoteNoContainer (tracked ''https://acct.core.windows.net/data'')
     = (None, (tracked ''https://acct.core.windows.net/data'')
                \<lparr>calls := [Call_determineResourceGroupForStorageAccount ''acct'',
                           Call_getBlobStorageClientForStorageAccount ''rg1'' ''acct'',
                           Call_DeleteIfExists ''acct'' []]\<rparr>)"
proof -
  let ?s = "tracked ''https://acct.core.windows.net/data''"
  have p: "parseStorageContainerID (dId (resourceData ?s)) publicCloud
             = Inr \<lparr>storageAccountName = ''acct'', containerName = []\<rparr>"
    by code_simp
  have e: "environment remoteNoResourceGroup = publicCloud" "environment remoteNoAccount = publicCloud"
    "environment remoteNoContainer = publicCloud"
    by (simp_all add: remoteNoResourceGroup_def remoteNoAccount_def remoteNoContainer_def
        remoteHealthy_def)
  have ex: "Ex Not"
    by (rule exI [of _ False]) simp
  show ?thesis
    using delete_without_parent_is_noop [of ?s remoteNoResourceGroup, OF p [folded e(1)]]
      delete_without_parent_is_noop [of ?s remoteNoAccount, OF p [folded e(2)]]
      delete_without_parent_is_noop [of ?s remoteNoContainer, OF p [folded e(3)]]
    by (simp add: remoteNoResourceGroup_def remoteNoAccount_def remoteNoContainer_def
        remoteHealthy_def tracked_def ex)
qed

end
